theory Spec2Isabelle
  imports Main "HOL-Library.Word"
begin

section \<open>libhttp: configuration defaults and the server side of a connection\<close>

text \<open>
  A shallow embedding of \<^verbatim>\<open>src/libhttp/cfg.c\<close> and \<^verbatim>\<open>src/libhttp/connection.c\<close>.
  C structs are records, enums are datatypes (or \<open>int\<close> where the code has a branch for
  values outside the enumerators), \<open>uint64_t\<close> is \<open>64 word\<close>, \<open>size_t\<close> quantities that
  are only stored or compared for equality are \<open>nat\<close>, byte buffers are \<open>string\<close>.
  Functions that return \<open>-1\<close> or \<open>0\<close> in C return the same \<open>int\<close> here, paired with the
  updated object.
\<close>

subsection \<open>Configuration (\<^verbatim>\<open>cfg.c\<close>)\<close>

text \<open>
  Modelled from the spec: \<^verbatim>\<open>enum http_bufferization\<close> is used by \<^verbatim>\<open>http_cfg_init\<close>
  (\<^verbatim>\<open>HTTP_BUFFERIZE_AUTO\<close>) but \<^verbatim>\<open>http.h\<close> and \<^verbatim>\<open>internal.h\<close> do not declare it; the
  specification lists the three policies auto, full and none.  The numeric values of the
  enumerators are unknown, so the one that \<^verbatim>\<open>memset(cfg, 0, ...)\<close> produces is a parameter
  of \<open>http_cfg_zero\<close>.
\<close>

datatype http_bufferization =
  HTTP_BUFFERIZE_AUTO | HTTP_BUFFERIZE_FULL | HTTP_BUFFERIZE_NONE

text \<open>A content decoder; the two function pointers are represented by the names of the
  C functions they point to.\<close>

record http_content_decoder =
  content_type :: string
  decode :: string
  delete :: string

text \<open>
  \<^verbatim>\<open>struct http_cfg\<close>, with the fields \<^verbatim>\<open>cfg.c\<close> and \<^verbatim>\<open>connection.c\<close> touch.
  \<open>connection_backlog\<close> and \<open>max_request_uri_length\<close> are the \<^verbatim>\<open>u.server\<close> members.
  Pointers that may be \<^verbatim>\<open>NULL\<close> are options.  The dynamic array \<^verbatim>\<open>content_decoders\<close>
  with its count \<^verbatim>\<open>nb_content_decoders\<close> is a list.
\<close>

record http_cfg =
  host :: "string option"
  port :: "string option"
  connection_backlog :: int
  max_request_uri_length :: nat
  max_header_name_length :: nat
  max_header_value_length :: nat
  max_content_length :: nat
  max_chunk_length :: nat
  bufferization :: http_bufferization
  connection_timeout :: "64 word"
  content_decoders :: "http_content_decoder list"

text \<open>The result of \<^verbatim>\<open>memset(cfg, 0, sizeof(struct http_cfg))\<close>; \<open>z\<close> is the enumerator of
  \<^verbatim>\<open>enum http_bufferization\<close> whose value is 0.\<close>

definition http_cfg_zero :: "http_bufferization \<Rightarrow> http_cfg" where
  "http_cfg_zero z =
     \<lparr> host = None, port = None, connection_backlog = 0,
       max_request_uri_length = 0, max_header_name_length = 0,
       max_header_value_length = 0, max_content_length = 0, max_chunk_length = 0,
       bufferization = z, connection_timeout = 0, content_decoders = [] \<rparr>"

text \<open>\<^verbatim>\<open>http_cfg_free\<close>: releases the decoder array and zeroes the structure.\<close>

definition http_cfg_free :: "http_bufferization \<Rightarrow> http_cfg \<Rightarrow> http_cfg" where
  "http_cfg_free z cfg = http_cfg_zero z"

text \<open>
  \<^verbatim>\<open>http_cfg_content_decoder_add\<close>.  \<open>alloc_ok\<close> is whether \<^verbatim>\<open>http_malloc\<close> (first decoder)
  or \<^verbatim>\<open>http_realloc\<close> (later ones) returns a non-null pointer.
\<close>

definition http_cfg_content_decoder_add ::
  "http_cfg \<Rightarrow> bool \<Rightarrow> string \<Rightarrow> string \<Rightarrow> string \<Rightarrow> int \<times> http_cfg" where
  "http_cfg_content_decoder_add cfg alloc_ok ct dec del =
     (if \<not> alloc_ok then (-1, cfg)
      else (0, cfg\<lparr>content_decoders := content_decoders cfg @
                    [\<lparr>content_type = ct, decode = dec, delete = del\<rparr>]\<rparr>))"

text \<open>\<^verbatim>\<open>http_cfg_init\<close>.  The structure is zeroed first, so the model takes no input
  configuration.\<close>

definition http_cfg_init :: "http_bufferization \<Rightarrow> bool \<Rightarrow> int \<times> http_cfg" where
  "http_cfg_init z alloc_ok =
     (case http_cfg_content_decoder_add (http_cfg_zero z) alloc_ok
             ''application/x-www-form-urlencoded''
             ''http_content_form_data_decode'' ''http_content_form_data_delete'' of
        (r, cfg) \<Rightarrow>
          if r = -1 then (-1, http_cfg_free z cfg)
          else (0, cfg\<lparr> host := Some ''localhost'', port := Some ''80'',
                         connection_backlog := 5,
                         max_request_uri_length := 2048,
                         max_header_name_length := 128,
                         max_header_value_length := 4096,
                         max_content_length := 16 * 1000 * 1000,
                         max_chunk_length := 1000 * 1000,
                         bufferization := HTTP_BUFFERIZE_AUTO,
                         connection_timeout := 10000 \<rparr>))"

subsection \<open>Protocol values (\<^verbatim>\<open>http.h\<close>)\<close>

text \<open>
  \<^verbatim>\<open>enum http_version\<close> and \<^verbatim>\<open>enum http_status_code\<close> are kept as \<open>int\<close>: the code
  compares a version with both enumerators and has a branch for every other value, and
  it prints status codes with \<^verbatim>\<open>%d\<close>.
\<close>

definition HTTP_1_0 :: int where [simp]: "HTTP_1_0 = 0"
definition HTTP_1_1 :: int where [simp]: "HTTP_1_1 = 1"

definition HTTP_BAD_REQUEST :: int where [simp]: "HTTP_BAD_REQUEST = 400"
definition HTTP_NOT_FOUND :: int where [simp]: "HTTP_NOT_FOUND = 404"
definition HTTP_METHOD_NOT_ALLOWED :: int where [simp]: "HTTP_METHOD_NOT_ALLOWED = 405"
definition HTTP_REQUEST_TIMEOUT :: int where [simp]: "HTTP_REQUEST_TIMEOUT = 408"
definition HTTP_INTERNAL_SERVER_ERROR :: int where [simp]: "HTTP_INTERNAL_SERVER_ERROR = 500"

datatype http_method =
  HTTP_GET | HTTP_POST | HTTP_HEAD | HTTP_PUT | HTTP_DELETE | HTTP_OPTIONS

datatype http_msg_type = HTTP_MSG_REQUEST | HTTP_MSG_RESPONSE

text \<open>\<^verbatim>\<open>enum http_connection_option\<close>: bits of the \<^verbatim>\<open>uint32_t connection_options\<close>.\<close>

definition HTTP_CONNECTION_KEEP_ALIVE :: "32 word" where
  [simp]: "HTTP_CONNECTION_KEEP_ALIVE = 0x01"
definition HTTP_CONNECTION_CLOSE :: "32 word" where
  [simp]: "HTTP_CONNECTION_CLOSE = 0x02"

subsection \<open>Messages, parser, routes (\<^verbatim>\<open>internal.h\<close>)\<close>

text \<open>\<^verbatim>\<open>struct http_uri\<close>: only the path is read by the connection.\<close>

record http_uri =
  path :: string

text \<open>
  \<^verbatim>\<open>struct http_msg\<close> with the members \<^verbatim>\<open>connection.c\<close> reads or writes:
  \<^verbatim>\<open>type\<close>, \<^verbatim>\<open>version\<close>, \<^verbatim>\<open>u.request.method\<close>, \<^verbatim>\<open>u.request.uri\<close> (the raw request
  target), \<^verbatim>\<open>request_uri\<close> (the parsed target, \<^verbatim>\<open>NULL\<close> until
  \<^verbatim>\<open>http_connection_process_msg\<close> stores it) and \<^verbatim>\<open>connection_options\<close>.
\<close>

record http_msg =
  msg_type :: http_msg_type
  version :: int
  request_method :: http_method
  request_uri_string :: string
  request_uri :: "http_uri option"
  connection_options :: "32 word"

datatype http_parser_state =
  HTTP_PARSER_START | HTTP_PARSER_HEADER | HTTP_PARSER_BODY | HTTP_PARSER_TRAILER
| HTTP_PARSER_ERROR | HTTP_PARSER_DONE

record http_parser =
  state :: http_parser_state
  msg :: http_msg
  status_code :: int
  errmsg :: string

text \<open>
  \<^verbatim>\<open>enum http_route_match_result\<close>.  \<^verbatim>\<open>connection.c\<close> switches on
  \<^verbatim>\<open>HTTP_ROUTE_MATCH_WRONG_METHOD\<close> and \<^verbatim>\<open>HTTP_ROUTE_MATCH_WRONG_PATH\<close> and sends every
  other value to the \<^verbatim>\<open>default\<close> label; \<^verbatim>\<open>internal.h\<close> declares
  \<^verbatim>\<open>OK\<close>, \<^verbatim>\<open>WRONG_PATH\<close>, \<^verbatim>\<open>METHOD_NOT_FOUND\<close> and \<^verbatim>\<open>PATH_NOT_FOUND\<close>.  The
  datatype has all five names.
\<close>

datatype http_route_match_result =
  HTTP_ROUTE_MATCH_OK
| HTTP_ROUTE_MATCH_WRONG_METHOD
| HTTP_ROUTE_MATCH_WRONG_PATH
| HTTP_ROUTE_MATCH_METHOD_NOT_FOUND
| HTTP_ROUTE_MATCH_PATH_NOT_FOUND

text \<open>\<^verbatim>\<open>struct http_request_info\<close>, one entry of the queue
  \<^verbatim>\<open>requests_first .. requests_last\<close> that \<^verbatim>\<open>struct http_connection\<close> declares.\<close>

record http_request_info =
  info_version :: int
  info_method :: http_method
  info_uri_string :: string
  info_status_code :: int

subsection \<open>Connections\<close>

text \<open>
  Calls into the reactor (libevent), the socket layer and the allocator are recorded, in
  call order, in the connection's \<open>trace\<close>.  \<open>Http_request_info_delete\<close> stands for
  \<^verbatim>\<open>http_request_info_delete\<close> of \<^verbatim>\<open>internal.h\<close>; \<open>Msg_handler\<close> marks the call of a
  route's message handler.
\<close>

datatype ev = Ev_read | Ev_write

datatype buf = Rbuf | Wbuf

datatype effect =
  Event_add ev
| Event_del ev
| Event_free ev
| Sock_read int
| Sock_write int
| Sock_shutdown_rd int
| Sock_close int
| Bf_buffer_delete buf
| Http_parser_free
| Http_free
| Http_request_info_delete http_request_info
| Http_server_error
| Http_server_trace
| Msg_handler

text \<open>The calls that act on the socket: read, write, shutdown and close.\<close>

fun is_socket_io :: "effect \<Rightarrow> bool" where
  "is_socket_io (Sock_read _) = True"
| "is_socket_io (Sock_write _) = True"
| "is_socket_io (Sock_shutdown_rd _) = True"
| "is_socket_io (Sock_close _) = True"
| "is_socket_io _ = False"

text \<open>What stops the C program: the use of a connection after \<^verbatim>\<open>http_free\<close>, or a failed
  \<^verbatim>\<open>assert\<close>.\<close>

datatype fault = Use_after_free | Assertion_failed

text \<open>\<^verbatim>\<open>struct http_server\<close>: the configuration and the key set of the hash table
  \<^verbatim>\<open>connections\<close> (socket descriptor to connection).\<close>

record http_server =
  cfg :: http_cfg
  connections :: "int set"

text \<open>
  \<^verbatim>\<open>struct http_connection\<close> as \<^verbatim>\<open>connection.c\<close> uses it, with the request-info queue
  of \<^verbatim>\<open>internal.h\<close> (\<open>requests\<close>, filled by \<open>http_connection_register_request_info\<close>
  below; no function of \<^verbatim>\<open>connection.c\<close> reads or writes it).  \<open>ev_read\<close> and \<open>ev_write\<close> say whether the event pointers are
  non-null.  The last four fields are not C members:
  \<^item> \<open>freed\<close>: the object has been passed to \<^verbatim>\<open>http_free\<close>;
  \<^item> \<open>fault\<close>: the program has stopped, and why;
  \<^item> \<open>trace\<close>: the library calls made so far;
  \<^item> \<open>rets\<close>: the return values of the fallible library calls still to come
    (\<^verbatim>\<open>bf_buffer_add\<close>, \<^verbatim>\<open>bf_buffer_add_vprintf\<close>, \<^verbatim>\<open>event_add\<close>, \<^verbatim>\<open>event_del\<close>,
    \<^verbatim>\<open>shutdown\<close>), in call order; when the list is exhausted every further call
    returns 0.
  The \<open>server\<close> field holds the server object itself; it outlives the connection.
\<close>

record http_connection =
  server :: http_server
  sock :: int
  ev_read :: bool
  ev_write :: bool
  rbuf :: string
  wbuf :: string
  shutting_down :: bool
  parser :: http_parser
  http_version :: int
  last_activity :: "64 word"
  requests :: "http_request_info list"
  freed :: bool
  fault :: "fault option"
  trace :: "effect list"
  rets :: "int list"

definition stuck :: "http_connection \<Rightarrow> bool" where
  "stuck c \<longleftrightarrow> freed c \<or> fault c \<noteq> None"

text \<open>Entering a function with a connection that has been freed is a use after free; a
  program that has already stopped stays as it is.\<close>

definition halt :: "http_connection \<Rightarrow> http_connection" where
  "halt c = (if fault c = None then c\<lparr>fault := Some Use_after_free\<rparr> else c)"

definition log :: "effect \<Rightarrow> http_connection \<Rightarrow> http_connection" where
  "log e c = c\<lparr>trace := trace c @ [e]\<rparr>"

text \<open>The return value of the next fallible library call.\<close>

definition libcall :: "http_connection \<Rightarrow> int \<times> http_connection" where
  "libcall c = (case rets c of [] \<Rightarrow> (0, c) | r # rs \<Rightarrow> (r, c\<lparr>rets := rs\<rparr>))"

definition event_add :: "http_connection \<Rightarrow> ev \<Rightarrow> int \<times> http_connection" where
  "event_add c e = (case libcall c of (r, c1) \<Rightarrow> (r, log (Event_add e) c1))"

definition event_del :: "http_connection \<Rightarrow> ev \<Rightarrow> int \<times> http_connection" where
  "event_del c e = (case libcall c of (r, c1) \<Rightarrow> (r, log (Event_del e) c1))"

text \<open>\<^verbatim>\<open>shutdown(connection->sock, SHUT_RD)\<close>.\<close>

definition sock_shutdown_rd :: "http_connection \<Rightarrow> int \<times> http_connection" where
  "sock_shutdown_rd c = (case libcall c of (r, c1) \<Rightarrow> (r, log (Sock_shutdown_rd (sock c1)) c1))"

text \<open>\<^verbatim>\<open>bf_buffer_add(connection->wbuf, data, sz)\<close> and \<^verbatim>\<open>bf_buffer_add_vprintf\<close> of
  libbuffer: append, or fail with -1 and leave the buffer as it was.  For the formatted
  variant \<open>data\<close> is the text the format expands to.\<close>

definition bf_buffer_add :: "http_connection \<Rightarrow> string \<Rightarrow> int \<times> http_connection" where
  "bf_buffer_add c data =
     (case libcall c of (r, c1) \<Rightarrow>
        if r = -1 then (-1, c1) else (0, c1\<lparr>wbuf := wbuf c1 @ data\<rparr>))"

text \<open>\<^verbatim>\<open>http_connection_error\<close> and \<^verbatim>\<open>http_connection_trace\<close> format a message and hand
  it to the server's hooks; both read \<^verbatim>\<open>connection->server\<close>.\<close>

definition http_connection_error :: "http_connection \<Rightarrow> http_connection" where
  "http_connection_error c = (if stuck c then halt c else log Http_server_error c)"

definition http_connection_trace :: "http_connection \<Rightarrow> http_connection" where
  "http_connection_trace c = (if stuck c then halt c else log Http_server_trace c)"

text \<open>The parser after \<^verbatim>\<open>memset\<close> to zero.\<close>

definition http_parser_zero :: http_parser where
  "http_parser_zero =
     \<lparr> state = HTTP_PARSER_START,
       msg = \<lparr> msg_type = HTTP_MSG_REQUEST, version = 0, request_method = HTTP_GET,
               request_uri_string = [], request_uri = None, connection_options = 0 \<rparr>,
       status_code = 0, errmsg = [] \<rparr>"

text \<open>
  \<^verbatim>\<open>http_connection_close\<close>.  The model's connection is never the null pointer.  After
  the \<^verbatim>\<open>memset\<close> and \<^verbatim>\<open>http_free\<close> the members are zero and the object is marked
  \<open>freed\<close>.
\<close>

definition http_connection_close :: "http_connection \<Rightarrow> http_connection" where
  "http_connection_close c =
     (if stuck c then halt c
      else
        let c1 = (if sock c \<ge> 0
                  then (log (Sock_close (sock c))
                          (c\<lparr>server := (server c)\<lparr>connections :=
                                         connections (server c) - {sock c}\<rparr>\<rparr>))
                       \<lparr>sock := -1\<rparr>
                  else c);
            c2 = (if ev_read c1 then log (Event_free Ev_read) c1 else c1);
            c3 = (if ev_write c2 then log (Event_free Ev_write) c2 else c2);
            c4 = log (Bf_buffer_delete Rbuf) c3;
            c5 = log (Bf_buffer_delete Wbuf) c4;
            c6 = log Http_parser_free c5;
            c7 = log Http_free c6
        in c7\<lparr> sock := 0, ev_read := False, ev_write := False, rbuf := [], wbuf := [],
                shutting_down := False, parser := http_parser_zero, http_version := 0,
                last_activity := 0, requests := [], freed := True \<rparr>)"

text \<open>\<^verbatim>\<open>http_connection_shutdown\<close>.\<close>

definition http_connection_shutdown :: "http_connection \<Rightarrow> int \<times> http_connection" where
  "http_connection_shutdown c =
     (if stuck c then (-1, halt c)
      else
        case event_del c Ev_read of (r, c1) \<Rightarrow>
          if r = -1 then (-1, http_connection_close c1)
          else
            case sock_shutdown_rd c1 of (r2, c2) \<Rightarrow>
              if r2 = -1 then (-1, http_connection_close c2)
              else (0, c2\<lparr>shutting_down := True\<rparr>))"

text \<open>\<^verbatim>\<open>http_connection_write\<close>.\<close>

definition http_connection_write ::
  "http_connection \<Rightarrow> string \<Rightarrow> int \<times> http_connection" where
  "http_connection_write c data =
     (if stuck c then (-1, halt c)
      else
        let previous_length = length (wbuf c) in
        case bf_buffer_add c data of (r, c1) \<Rightarrow>
          if r = -1 then (-1, c1)
          else if previous_length = 0 then
            (case event_add c1 Ev_write of (r2, c2) \<Rightarrow>
               if r2 = -1 then (-1, c2\<lparr>wbuf := take previous_length (wbuf c2)\<rparr>)
               else (0, c2))
          else (0, c1))"

text \<open>\<^verbatim>\<open>http_connection_printf\<close>; \<open>text\<close> is what the format and its arguments expand
  to.\<close>

definition http_connection_printf ::
  "http_connection \<Rightarrow> string \<Rightarrow> int \<times> http_connection" where
  "http_connection_printf c text =
     (if stuck c then (-1, halt c)
      else
        let previous_length = length (wbuf c) in
        case bf_buffer_add c text of (r, c1) \<Rightarrow>
          if r = -1 then (-1, c1)
          else if previous_length = 0 then
            (case event_add c1 Ev_write of (r2, c2) \<Rightarrow>
               if r2 = -1 then (-1, c2\<lparr>wbuf := take previous_length (wbuf c2)\<rparr>)
               else (0, c2))
          else (0, c1))"


subsection \<open>Formatting\<close>

definition CRLF :: string where
  "CRLF = [CHR 0x0D, CHR 0x0A]"

text \<open>\<^verbatim>\<open>%zu\<close>: an unsigned number in decimal.\<close>

fun fmt_zu :: "nat \<Rightarrow> string" where
  "fmt_zu n =
     (if n < 10 then [''0123456789'' ! n]
      else fmt_zu (n div 10) @ [''0123456789'' ! (n mod 10)])"

declare fmt_zu.simps [simp del]

text \<open>\<^verbatim>\<open>%d\<close>: a signed number in decimal.\<close>

definition fmt_d :: "int \<Rightarrow> string" where
  "fmt_d i = (if i < 0 then CHR ''-'' # fmt_zu (nat (- i)) else fmt_zu (nat i))"

text \<open>\<^verbatim>\<open>(size_t)ret\<close> for a \<^verbatim>\<open>ssize_t\<close> on a 64-bit target.\<close>

definition size_t_of :: "int \<Rightarrow> nat" where
  "size_t_of i = nat (i mod 2 ^ 64)"

subsection \<open>Functions declared in \<^verbatim>\<open>http.h\<close> and \<^verbatim>\<open>internal.h\<close> and defined
  outside \<^verbatim>\<open>cfg.c\<close> and \<^verbatim>\<open>connection.c\<close>\<close>

text \<open>
  They are parameters of the model, collected in one record:
  \<^item> \<open>http_version_to_string\<close>, \<open>http_status_code_to_reason_phrase\<close>: \<open>None\<close> is the
    null pointer;
  \<^item> \<open>http_msg_parse\<close>: from the read buffer and the parser to the return value, the
    buffer that is left and the new parser;
  \<^item> \<open>http_parser_reset\<close>: the return value and the new parser;
  \<^item> \<open>http_uri_new\<close>: \<open>None\<close> when the request target does not parse;
  \<^item> \<open>http_route_base_find_msg_handler\<close>: the handler (\<open>None\<close> for \<^verbatim>\<open>NULL\<close>) and the
    value stored through the \<^verbatim>\<open>match_result\<close> pointer;
  \<^item> \<open>request_hook\<close>: the hook of the configuration, \<open>None\<close> when it is not set.
  A handler or hook is user code that receives the connection and the message, which
  is the connection's \<^verbatim>\<open>parser.msg\<close>; it is a function from connection to connection.
\<close>

record externs =
  http_version_to_string :: "int \<Rightarrow> string option"
  http_status_code_to_reason_phrase :: "int \<Rightarrow> string option"
  http_msg_parse :: "string \<Rightarrow> http_parser \<Rightarrow> int \<times> string \<times> http_parser"
  http_parser_reset :: "http_parser \<Rightarrow> int \<times> http_parser"
  http_uri_new :: "string \<Rightarrow> http_uri option"
  http_route_base_find_msg_handler ::
    "http_method \<Rightarrow> string \<Rightarrow> (http_connection \<Rightarrow> http_connection) option \<times> http_route_match_result"
  request_hook :: "(http_connection \<Rightarrow> http_connection) option"

subsection \<open>Writing a response\<close>

text \<open>\<^verbatim>\<open>http_connection_write_response\<close>; the format is \<^verbatim>\<open>"%s %d %s\r\n"\<close>.\<close>

definition http_connection_write_response ::
  "externs \<Rightarrow> http_connection \<Rightarrow> int \<Rightarrow> string option \<Rightarrow> int \<times> http_connection" where
  "http_connection_write_response X c code reason_phrase =
     (if stuck c then (-1, halt c)
      else
        case http_version_to_string X (http_version c) of
          None \<Rightarrow> (-1, c)
        | Some version_str \<Rightarrow>
            (case (case reason_phrase of
                     None \<Rightarrow> http_status_code_to_reason_phrase X code
                   | Some rp \<Rightarrow> Some rp) of
               None \<Rightarrow> (-1, c)
             | Some rp \<Rightarrow>
                 (case http_connection_printf c
                         (version_str @ '' '' @ fmt_d code @ '' '' @ rp @ CRLF) of
                    (r, c1) \<Rightarrow> if r = -1 then (-1, c1) else (0, c1))))"

text \<open>\<^verbatim>\<open>http_connection_write_header\<close>.\<close>

definition http_connection_write_header ::
  "http_connection \<Rightarrow> string \<Rightarrow> string \<Rightarrow> int \<times> http_connection" where
  "http_connection_write_header c name val =
     (case http_connection_printf c (name @ '': '') of (r, c1) \<Rightarrow>
        if r = -1 then (-1, c1)
        else
          case http_connection_write c1 val of (r2, c2) \<Rightarrow>
            if r2 = -1 then (-1, c2)
            else
              case http_connection_write c2 CRLF of (r3, c3) \<Rightarrow>
                if r3 = -1 then (-1, c3) else (0, c3))"

text \<open>\<^verbatim>\<open>http_connection_write_body\<close>.\<close>

definition http_connection_write_body ::
  "http_connection \<Rightarrow> string \<Rightarrow> int \<times> http_connection" where
  "http_connection_write_body c body =
     (case http_connection_write c CRLF of (r, c1) \<Rightarrow>
        if r = -1 then (-1, c1)
        else
          case http_connection_write c1 body of (r2, c2) \<Rightarrow>
            if r2 = -1 then (-1, c2) else (0, c2))"

text \<open>
  The body that \<^verbatim>\<open>http_connection_http_error\<close> formats into \<^verbatim>\<open>char body[1024]\<close> with
  \<^verbatim>\<open>"<h1>%d %s</h1>\n"\<close>.  With a null reason phrase glibc prints \<^verbatim>\<open>(null)\<close>; the
  response is then never written, because \<^verbatim>\<open>http_connection_write_response\<close> fails.
\<close>

definition http_error_body :: "int \<Rightarrow> string option \<Rightarrow> string" where
  "http_error_body code reason_phrase =
     take 1023 (''<h1>'' @ fmt_d code @ '' ''
                @ (case reason_phrase of None \<Rightarrow> ''(null)'' | Some rp \<Rightarrow> rp)
                @ ''</h1>'' @ [CHR 0x0A])"

text \<open>\<^verbatim>\<open>http_connection_http_error\<close>.\<close>

definition http_connection_http_error ::
  "externs \<Rightarrow> http_connection \<Rightarrow> int \<Rightarrow> int \<times> http_connection" where
  "http_connection_http_error X c code =
     (if stuck c then (-1, halt c)
      else
        let reason_phrase = http_status_code_to_reason_phrase X code;
            body = http_error_body code reason_phrase;
            body_length = length body;
            length_str = take 31 (fmt_zu body_length)
        in
        case http_connection_write_response X c code reason_phrase of (r, c1) \<Rightarrow>
          if r = -1 then (-1, http_connection_close (http_connection_error c1))
          else
            case http_connection_write_header c1 ''Content-Type'' ''text/html'' of
              (r2, c2) \<Rightarrow>
                if r2 = -1 then (-1, c2)
                else
                  case http_connection_write_header c2 ''Content-Length'' length_str of
                    (r3, c3) \<Rightarrow>
                      if r3 = -1 then (-1, c3)
                      else
                        case http_connection_write_body c3 body of (r4, c4) \<Rightarrow>
                          if r4 = -1 then (-1, c4) else (0, c4))"

subsection \<open>Timeout, write event\<close>

text \<open>\<^verbatim>\<open>http_connection_check_for_timeout\<close>; the subtraction is that of \<^verbatim>\<open>uint64_t\<close>.\<close>

definition http_connection_check_for_timeout ::
  "externs \<Rightarrow> http_connection \<Rightarrow> 64 word \<Rightarrow> http_connection" where
  "http_connection_check_for_timeout X c now =
     (if stuck c then halt c
      else
        let diff = now - last_activity c in
        if diff > connection_timeout (cfg (server c)) then
          snd (http_connection_shutdown
                 (snd (http_connection_http_error X c HTTP_REQUEST_TIMEOUT)))
        else c)"

text \<open>
  \<^verbatim>\<open>http_connection_on_write_event\<close>.  \<open>ret\<close> is what \<^verbatim>\<open>bf_buffer_write\<close> returns: -1,
  or the number of bytes of the write buffer that the socket accepted.
  \<^verbatim>\<open>bf_buffer_skip\<close> drops that many bytes from the front of the buffer.
\<close>

definition http_connection_on_write_event ::
  "http_connection \<Rightarrow> int \<Rightarrow> http_connection" where
  "http_connection_on_write_event c ret =
     (if stuck c then halt c
      else
        let c0 = log (Sock_write (sock c)) c in
        if ret = -1 then http_connection_close (http_connection_error c0)
        else
          let c1 = c0\<lparr>wbuf := drop (size_t_of ret) (wbuf c0)\<rparr> in
          if length (wbuf c1) = 0 then
            (case event_del c1 Ev_write of (r, c2) \<Rightarrow>
               if shutting_down c2 then http_connection_close c2 else c2)
          else c1)"

subsection \<open>Processing a request, read event\<close>

text \<open>The decision taken at the label \<^verbatim>\<open>end\<close> of \<^verbatim>\<open>http_connection_process_msg\<close>.\<close>

definition do_shutdown :: "http_msg \<Rightarrow> bool" where
  "do_shutdown m =
     (if version m = HTTP_1_0 then
        \<not> (and (connection_options m) HTTP_CONNECTION_KEEP_ALIVE \<noteq> 0)
      else if version m = HTTP_1_1 then
        and (connection_options m) HTTP_CONNECTION_CLOSE \<noteq> 0
      else True)"

text \<open>The code from the label \<^verbatim>\<open>end\<close> on.  \<^verbatim>\<open>msg\<close> points into the connection, so the
  message is read from the connection as it is at that point.\<close>

definition process_msg_end :: "http_connection \<Rightarrow> http_connection" where
  "process_msg_end c =
     (if stuck c then halt c
      else if do_shutdown (msg (parser c)) then
        (case http_connection_shutdown c of (r, c1) \<Rightarrow>
           if r = -1 then http_connection_error c1 else c1)
      else c)"

text \<open>
  \<^verbatim>\<open>http_connection_process_msg\<close>.  Its only caller passes
  \<^verbatim>\<open>&connection->parser.msg\<close>, so the message is \<open>msg (parser c)\<close>.  The result of
  \<^verbatim>\<open>http_uri_new\<close> is stored in \<^verbatim>\<open>msg->request_uri\<close> before it is tested, so a
  target that does not parse leaves the null pointer there.
\<close>

definition http_connection_process_msg ::
  "externs \<Rightarrow> http_connection \<Rightarrow> http_connection" where
  "http_connection_process_msg X c =
     (if stuck c then halt c
      else
        let m = msg (parser c) in
        if msg_type m \<noteq> HTTP_MSG_REQUEST then c\<lparr>fault := Some Assertion_failed\<rparr>
        else
          let c0 = c\<lparr>http_version := version m\<rparr> in
          if request_uri_string m = ''*'' then
            process_msg_end
              (snd (http_connection_http_error X (http_connection_trace c0)
                      HTTP_BAD_REQUEST))
          else
            case http_uri_new X (request_uri_string m) of
              None \<Rightarrow>
                process_msg_end
                  (snd (http_connection_http_error X
                          (http_connection_trace
                             (c0\<lparr>parser := (parser c0)\<lparr>msg := m\<lparr>request_uri := None\<rparr>\<rparr>\<rparr>))
                          HTTP_BAD_REQUEST))
            | Some u \<Rightarrow>
                (let c1 = c0\<lparr>parser := (parser c0)\<lparr>msg := m\<lparr>request_uri := Some u\<rparr>\<rparr>\<rparr> in
                 case http_route_base_find_msg_handler X (request_method m) (path u) of
                   (None, match_result) \<Rightarrow>
                     (case match_result of
                        HTTP_ROUTE_MATCH_WRONG_METHOD \<Rightarrow>
                          process_msg_end
                            (snd (http_connection_http_error X c1 HTTP_METHOD_NOT_ALLOWED))
                      | _ \<Rightarrow>
                          process_msg_end
                            (snd (http_connection_http_error X c1 HTTP_NOT_FOUND)))
                 | (Some handler, match_result) \<Rightarrow>
                     process_msg_end (handler (log Msg_handler c1))))"

text \<open>
  The \<^verbatim>\<open>for (;;)\<close> loop of \<^verbatim>\<open>http_connection_on_read_event\<close>.  The result is
  \<open>None\<close> when the loop does not end, and otherwise the connection together with
  \<open>True\<close> when the function returned from inside the loop, \<open>False\<close> when the loop was
  left by \<^verbatim>\<open>break\<close>.
\<close>

partial_function (option) read_loop ::
  "externs \<Rightarrow> http_connection \<Rightarrow> (bool \<times> http_connection) option" where
  "read_loop X c =
     (if stuck c then Some (True, halt c)
      else
        case http_msg_parse X (rbuf c) (parser c) of (ret, rb, p) \<Rightarrow>
          let c1 = c\<lparr>rbuf := rb, parser := p\<rparr> in
          if ret = -1 then
            Some (True,
              snd (http_connection_shutdown
                     (snd (http_connection_http_error X (http_connection_error c1)
                             HTTP_INTERNAL_SERVER_ERROR))))
          else if ret = 0 then Some (False, c1)
          else if state p = HTTP_PARSER_ERROR then
            Some (True,
              snd (http_connection_shutdown
                     (snd (http_connection_http_error X (http_connection_error c1)
                             (status_code p)))))
          else if state p = HTTP_PARSER_DONE then
            (let c2 = (case request_hook X of None \<Rightarrow> c1 | Some hook \<Rightarrow> hook c1);
                 c3 = http_connection_process_msg X c2
             in
             if stuck c3 then Some (True, halt c3)
             else
               case http_parser_reset X (parser c3) of (r, p') \<Rightarrow>
                 if r = -1 then
                   Some (True,
                     http_connection_close (http_connection_error (c3\<lparr>parser := p'\<rparr>)))
                 else read_loop X (c3\<lparr>parser := p'\<rparr>))
          else read_loop X c1)"

text \<open>
  \<^verbatim>\<open>http_connection_on_read_event\<close>.  \<open>ret\<close> and \<open>data\<close> are the return value of
  \<^verbatim>\<open>bf_buffer_read\<close> and the bytes it appended to the read buffer; \<open>now\<close> is the time
  \<^verbatim>\<open>http_now_ms\<close> stores, \<open>None\<close> when it fails.
\<close>

definition http_connection_on_read_event ::
  "externs \<Rightarrow> http_connection \<Rightarrow> int \<Rightarrow> string \<Rightarrow> 64 word option
     \<Rightarrow> http_connection option" where
  "http_connection_on_read_event X c ret data now =
     (if stuck c then Some (halt c)
      else
        let c0 = log (Sock_read (sock c)) c in
        if ret = -1 then Some (http_connection_close (http_connection_error c0))
        else if ret = 0 then Some (http_connection_close c0)
        else
          case read_loop X (c0\<lparr>rbuf := rbuf c0 @ data\<rparr>) of
            None \<Rightarrow> None
          | Some (returned, c1) \<Rightarrow>
              if returned then Some c1
              else
                (case now of
                   None \<Rightarrow> Some (http_connection_error c1)
                 | Some t \<Rightarrow> Some (c1\<lparr>last_activity := t\<rparr>)))"

subsection \<open>Notions used in the statements\<close>

text \<open>The connection after \<open>d\<close> has been appended to its write buffer, with the write
  event added when the buffer was empty.\<close>

definition emit :: "http_connection \<Rightarrow> string \<Rightarrow> http_connection" where
  "emit c d = c\<lparr>wbuf := wbuf c @ d,
               trace := trace c @ (if wbuf c = [] then [Event_add Ev_write] else [])\<rparr>"

text \<open>The calls recorded after the trace had length \<open>n\<close>.\<close>

definition effects_since :: "nat \<Rightarrow> http_connection \<Rightarrow> effect list" where
  "effects_since n c = drop n (trace c)"

text \<open>The bytes of a complete response of \<^verbatim>\<open>http_connection_http_error\<close>: status line,
  \<^verbatim>\<open>Content-Type\<close>, \<^verbatim>\<open>Content-Length\<close>, empty line, body.\<close>

definition error_response :: "string \<Rightarrow> int \<Rightarrow> string \<Rightarrow> string" where
  "error_response version_str code rp =
     version_str @ '' '' @ fmt_d code @ '' '' @ rp @ CRLF
     @ ''Content-Type: text/html'' @ CRLF
     @ ''Content-Length: ''
     @ take 31 (fmt_zu (length (http_error_body code (Some rp)))) @ CRLF
     @ CRLF
     @ http_error_body code (Some rp)"

text \<open>The lines of a byte string, separated by CR LF.\<close>

fun lines_of :: "string \<Rightarrow> string list" where
  "lines_of [] = [[]]"
| "lines_of [a] = [[a]]"
| "lines_of (a # b # xs) =
     (if a = CHR 0x0D \<and> b = CHR 0x0A then [] # lines_of xs
      else (case lines_of (b # xs) of [] \<Rightarrow> [[a]] | l # ls \<Rightarrow> (a # l) # ls))"

text \<open>The names of the header fields of a response: of every line after the status line
  and before the first empty line, the part before the colon.\<close>

definition response_header_names :: "string \<Rightarrow> string list" where
  "response_header_names s =
     map (takeWhile (\<lambda>x. x \<noteq> CHR '':''))
         (takeWhile (\<lambda>l. l \<noteq> []) (tl (lines_of s)))"

text \<open>That the options of a message contain keep-alive (bit 0) or close (bit 1).\<close>

definition has_keep_alive :: "http_msg \<Rightarrow> bool" where
  "has_keep_alive m \<longleftrightarrow> bit (connection_options m) 0"

definition has_close :: "http_msg \<Rightarrow> bool" where
  "has_close m \<longleftrightarrow> bit (connection_options m) 1"

text \<open>
  The keep-alive policy in the specification's words: version 1.0 shuts down unless the
  request carried keep-alive, version 1.1 shuts down if and only if the request carried
  close, any other version shuts down.
\<close>

definition version_policy :: "http_msg \<Rightarrow> bool" where
  "version_policy m =
     (if version m = HTTP_1_0 then \<not> has_keep_alive m
      else if version m = HTTP_1_1 then has_close m
      else True)"

text \<open>What \<^verbatim>\<open>http_connection_process_msg\<close> does with the connection when it shuts it
  down at the label \<^verbatim>\<open>end\<close>: the call, and the error report when the call fails.\<close>

definition shutdown_at_end :: "http_connection \<Rightarrow> http_connection" where
  "shutdown_at_end c =
     (case http_connection_shutdown c of (r, c1) \<Rightarrow>
        if r = -1 then http_connection_error c1 else c1)"

text \<open>The connection as \<^verbatim>\<open>http_connection_process_msg\<close> hands it to the route lookup:
  the version of the request taken over, the parsed target \<open>u\<close> stored in the message.\<close>

definition with_request_uri :: "http_connection \<Rightarrow> http_uri \<Rightarrow> http_connection" where
  "with_request_uri c u =
     c\<lparr>http_version := version (msg (parser c)),
       parser := (parser c)\<lparr>msg := (msg (parser c))\<lparr>request_uri := Some u\<rparr>\<rparr>\<rparr>"

text \<open>The connection after the socket write of a write event: the call is recorded and
  the written prefix dropped from the write buffer.\<close>

definition after_write :: "http_connection \<Rightarrow> int \<Rightarrow> http_connection" where
  "after_write c ret = (log (Sock_write (sock c)) c)\<lparr>wbuf := drop (size_t_of ret) (wbuf c)\<rparr>"

text \<open>The connection after \<^verbatim>\<open>event_del\<close> on the event \<open>e\<close>, whatever the call returned.\<close>

definition after_event_del :: "ev \<Rightarrow> http_connection \<Rightarrow> http_connection" where
  "after_event_del e c = log (Event_del e) (c\<lparr>rets := tl (rets c)\<rparr>)"

text \<open>How many times a route's message handler has been called.\<close>

definition handler_calls :: "http_connection \<Rightarrow> nat" where
  "handler_calls c = count_list (trace c) Msg_handler"

subsection \<open>A concrete server, for evaluation\<close>

text \<open>A handler that answers with a short text.\<close>

definition handler0 :: "http_connection \<Rightarrow> http_connection" where
  "handler0 c = snd (http_connection_write c ''hello'')"

text \<open>
  One route, \<^verbatim>\<open>GET /x\<close>.  The stand-in for the parser takes one byte per call: \<open>!\<close>
  is a malformed request (status 400), any other byte completes the request that the
  parser already holds.
\<close>

definition externs0 :: externs where
  "externs0 =
     \<lparr> http_version_to_string =
         (\<lambda>v. if v = 0 then Some ''HTTP/1.0'' else if v = 1 then Some ''HTTP/1.1'' else None),
       http_status_code_to_reason_phrase =
         (\<lambda>s. if s = 400 then Some ''Bad Request''
              else if s = 404 then Some ''Not Found''
              else if s = 405 then Some ''Method Not Allowed''
              else if s = 408 then Some ''Request Timeout''
              else if s = 500 then Some ''Internal Server Error''
              else None),
       http_msg_parse =
         (\<lambda>rb p. case rb of
                    [] \<Rightarrow> (0, [], p)
                  | x # xs \<Rightarrow>
                      if x = CHR ''!''
                      then (1, xs, p\<lparr>state := HTTP_PARSER_ERROR, status_code := 400,
                                      errmsg := ''bad''\<rparr>)
                      else (1, xs, p\<lparr>state := HTTP_PARSER_DONE\<rparr>)),
       http_parser_reset = (\<lambda>p. (0, p\<lparr>state := HTTP_PARSER_START\<rparr>)),
       http_uri_new = (\<lambda>s. if s = [] then None else Some \<lparr>path = s\<rparr>),
       http_route_base_find_msg_handler =
         (\<lambda>m p. if p = ''/x''
                 then (if m = HTTP_GET then (Some handler0, HTTP_ROUTE_MATCH_OK)
                       else (None, HTTP_ROUTE_MATCH_WRONG_METHOD))
                 else (None, HTTP_ROUTE_MATCH_WRONG_PATH)),
       request_hook = None \<rparr>"

text \<open>A request with method \<open>meth\<close>, target \<open>target\<close>, version \<open>v\<close> and connection
  options \<open>opts\<close>.\<close>

definition request0 :: "http_method \<Rightarrow> string \<Rightarrow> int \<Rightarrow> 32 word \<Rightarrow> http_msg" where
  "request0 meth target v opts =
     \<lparr> msg_type = HTTP_MSG_REQUEST, version = v, request_method = meth,
       request_uri_string = target, request_uri = None, connection_options = opts \<rparr>"

text \<open>A live connection on socket 7 with empty buffers, last active at time 1000, whose
  parser holds the request \<open>m\<close>; every library call succeeds.\<close>

definition conn0 :: "http_msg \<Rightarrow> http_connection" where
  "conn0 m =
     \<lparr> server = \<lparr> cfg = snd (http_cfg_init HTTP_BUFFERIZE_AUTO True), connections = {7} \<rparr>,
       sock = 7, ev_read = True, ev_write = True, rbuf = [], wbuf = [],
       shutting_down = False,
       parser = \<lparr> state = HTTP_PARSER_START, msg = m, status_code = 0, errmsg = [] \<rparr>,
       http_version = HTTP_1_1, last_activity = 1000, requests = [],
       freed = False, fault = None, trace = [], rets = [] \<rparr>"

section \<open>Properties\<close>

subsection \<open>Library calls that succeed\<close>

lemma emit_fields [simp]:
  "stuck (emit c d) = stuck c" "rets (emit c d) = rets c" "wbuf (emit c d) = wbuf c @ d"
  "sock (emit c d) = sock c" "freed (emit c d) = freed c"
  "http_version (emit c d) = http_version c" "shutting_down (emit c d) = shutting_down c"
  "parser (emit c d) = parser c" "rbuf (emit c d) = rbuf c" "server (emit c d) = server c"
  "trace (emit c d) = trace c @ (if wbuf c = [] then [Event_add Ev_write] else [])"
  by (simp_all add: emit_def stuck_def)

lemma log_fields [simp]:
  "stuck (log e c) = stuck c" "rets (log e c) = rets c" "wbuf (log e c) = wbuf c"
  "sock (log e c) = sock c" "freed (log e c) = freed c"
  "http_version (log e c) = http_version c" "shutting_down (log e c) = shutting_down c"
  "parser (log e c) = parser c" "rbuf (log e c) = rbuf c" "server (log e c) = server c"
  "trace (log e c) = trace c @ [e]"
  by (simp_all add: log_def stuck_def)

lemma emit_emit: "wbuf c \<noteq> [] \<or> a \<noteq> [] \<Longrightarrow> emit (emit c a) b = emit c (a @ b)"
  by (auto simp: emit_def)

lemma http_connection_write_ok:
  "\<not> stuck c \<Longrightarrow> rets c = [] \<Longrightarrow> http_connection_write c d = (0, emit c d)"
  by (simp add: http_connection_write_def bf_buffer_add_def event_add_def libcall_def
      log_def emit_def Let_def)

lemma http_connection_printf_ok:
  "\<not> stuck c \<Longrightarrow> rets c = [] \<Longrightarrow> http_connection_printf c d = (0, emit c d)"
  by (simp add: http_connection_printf_def bf_buffer_add_def event_add_def libcall_def
      log_def emit_def Let_def)

lemma http_connection_write_header_ok:
  "\<not> stuck c \<Longrightarrow> rets c = [] \<Longrightarrow>
   http_connection_write_header c name val = (0, emit c (name @ '': '' @ val @ CRLF))"
  by (simp add: http_connection_write_header_def http_connection_write_ok
      http_connection_printf_ok emit_emit)

lemma http_connection_write_body_ok:
  "\<not> stuck c \<Longrightarrow> rets c = [] \<Longrightarrow>
   http_connection_write_body c body = (0, emit c (CRLF @ body))"
  by (simp add: http_connection_write_body_def http_connection_write_ok emit_emit CRLF_def)

lemma http_connection_write_response_ok:
  "\<not> stuck c \<Longrightarrow> rets c = [] \<Longrightarrow> http_version_to_string X (http_version c) = Some vs \<Longrightarrow>
   http_status_code_to_reason_phrase X code = Some rp \<Longrightarrow>
   http_connection_write_response X c code (Some rp)
     = (0, emit c (vs @ '' '' @ fmt_d code @ '' '' @ rp @ CRLF))"
  by (simp add: http_connection_write_response_def http_connection_printf_ok)

lemma http_connection_http_error_ok:
  assumes "\<not> stuck c" "rets c = []"
    and "http_version_to_string X (http_version c) = Some vs"
    and "http_status_code_to_reason_phrase X code = Some rp"
  shows "http_connection_http_error X c code = (0, emit c (error_response vs code rp))"
  using assms
  by (simp add: http_connection_http_error_def http_connection_write_response_ok
      http_connection_write_header_ok http_connection_write_body_ok emit_emit
      error_response_def Let_def)

lemma http_connection_shutdown_ok:
  "\<not> stuck c \<Longrightarrow> rets c = [] \<Longrightarrow>
   http_connection_shutdown c
     = (0, c\<lparr>trace := trace c @ [Event_del Ev_read, Sock_shutdown_rd (sock c)],
              shutting_down := True\<rparr>)"
  by (simp add: http_connection_shutdown_def event_del_def sock_shutdown_rd_def libcall_def
      log_def stuck_def)

lemma process_msg_end_ok:
  "\<not> stuck c \<Longrightarrow> rets c = [] \<Longrightarrow>
   process_msg_end c
     = (if do_shutdown (msg (parser c))
        then c\<lparr>trace := trace c @ [Event_del Ev_read, Sock_shutdown_rd (sock c)],
               shutting_down := True\<rparr>
        else c)"
  by (simp add: process_msg_end_def http_connection_shutdown_ok)

lemma do_shutdown_policy:
  "do_shutdown m \<longleftrightarrow>
     (if version m = HTTP_1_0 then \<not> has_keep_alive m
      else if version m = HTTP_1_1 then has_close m else True)"
proof -
  have a: "and w (1 :: 32 word) \<noteq> 0 \<longleftrightarrow> bit w 0" for w
    using bit_iff_and_push_bit_not_eq_0 [of w 0] by simp
  have b: "and w (2 :: 32 word) \<noteq> 0 \<longleftrightarrow> bit w 1" for w
    using bit_iff_and_push_bit_not_eq_0 [of w 1] by simp
  show ?thesis
    by (simp add: do_shutdown_def has_keep_alive_def has_close_def a b)
qed

lemma shutdown_trace_grows:
  "\<not> stuck c \<Longrightarrow> \<exists>es. trace (snd (http_connection_shutdown c)) = trace c @ Event_del Ev_read # es"
  by (auto simp: http_connection_shutdown_def event_del_def sock_shutdown_rd_def libcall_def
      log_def stuck_def http_connection_close_def halt_def Let_def split: list.splits)

subsection \<open>Buffered writes\<close>

lemma write_printf_same: "http_connection_printf c d = http_connection_write c d"
  by (simp add: http_connection_printf_def http_connection_write_def)

lemma http_connection_write_cases:
  assumes "http_connection_write c d = (r, c')"
  shows "r \<noteq> -1 \<longrightarrow> wbuf c' = wbuf c @ d
           \<and> trace c' = trace c @ (if wbuf c = [] then [Event_add Ev_write] else [])"
    and "r = -1 \<longrightarrow> wbuf c' = wbuf c"
  using assms
  by (auto simp: http_connection_write_def bf_buffer_add_def event_add_def libcall_def
      log_def halt_def Let_def split: if_splits list.splits prod.splits)

text \<open>
  C6.  When \<open>http_connection_write\<close> or \<open>http_connection_printf\<close> returns success (a
  value other than -1), the bytes have been appended to the write buffer, the write event
  has been added with the reactor exactly when the buffer was empty before the call, and
  the call has made no other library call: in particular it has not read from, written
  to, shut down or closed the socket.
\<close>

theorem http_connection_write_success:
  "(http_connection_write c d = (r, c') \<and> r \<noteq> -1 \<longrightarrow>
      wbuf c' = wbuf c @ d
      \<and> trace c' = trace c @ (if wbuf c = [] then [Event_add Ev_write] else [])
      \<and> (\<forall>e \<in> set (effects_since (length (trace c)) c'). \<not> is_socket_io e))
   \<and> (http_connection_printf c d = (r, c') \<and> r \<noteq> -1 \<longrightarrow>
      wbuf c' = wbuf c @ d
      \<and> trace c' = trace c @ (if wbuf c = [] then [Event_add Ev_write] else [])
      \<and> (\<forall>e \<in> set (effects_since (length (trace c)) c'). \<not> is_socket_io e))"
  using http_connection_write_cases(1) [of c d r c']
  by (auto simp: write_printf_same effects_since_def)

theorem http_connection_write_success_witness:
  "http_connection_write (conn0 (request0 HTTP_GET ''/x'' 1 0)) ''abc''
     = (0, emit (conn0 (request0 HTTP_GET ''/x'' 1 0)) ''abc'')
   \<and> wbuf (emit (conn0 (request0 HTTP_GET ''/x'' 1 0)) ''abc'') = ''abc''
   \<and> trace (emit (conn0 (request0 HTTP_GET ''/x'' 1 0)) ''abc'') = [Event_add Ev_write]
   \<and> http_connection_printf (emit (conn0 (request0 HTTP_GET ''/x'' 1 0)) ''abc'') ''de''
     = (0, emit (emit (conn0 (request0 HTTP_GET ''/x'' 1 0)) ''abc'') ''de'')
   \<and> wbuf (emit (emit (conn0 (request0 HTTP_GET ''/x'' 1 0)) ''abc'') ''de'') = ''abcde''
   \<and> trace (emit (emit (conn0 (request0 HTTP_GET ''/x'' 1 0)) ''abc'') ''de'')
     = [Event_add Ev_write]"
proof -
  let ?c = "conn0 (request0 HTTP_GET ''/x'' 1 0)"
  have live: "\<not> stuck ?c" "rets ?c = []" "wbuf ?c = []" "trace ?c = []"
    by (simp_all add: conn0_def stuck_def)
  have w: "http_connection_write ?c ''abc'' = (0, emit ?c ''abc'')"
    using live by (simp add: http_connection_write_ok)
  have p: "http_connection_printf (emit ?c ''abc'') ''de'' = (0, emit (emit ?c ''abc'') ''de'')"
    using live by (simp add: http_connection_printf_ok)
  from http_connection_write_success [of ?c "''abc''" 0 "emit ?c ''abc''"] w
  have 1: "wbuf (emit ?c ''abc'') = ''abc'' \<and> trace (emit ?c ''abc'') = [Event_add Ev_write]"
    using live by simp
  from http_connection_write_success
         [of "emit ?c ''abc''" "''de''" 0 "emit (emit ?c ''abc'') ''de''"] p
  have 2: "wbuf (emit (emit ?c ''abc'') ''de'') = ''abcde''
           \<and> trace (emit (emit ?c ''abc'') ''de'') = [Event_add Ev_write]"
    using live by simp
  from w p 1 2 show ?thesis by simp
qed

text \<open>
  C10.  When \<open>http_connection_write\<close> or \<open>http_connection_printf\<close> returns -1, the write
  buffer holds what it held before the call.  This covers the failure of the append
  itself and the failure to add the write event after an append to an empty buffer,
  where the buffer is truncated to its previous length.
\<close>

theorem http_connection_write_failure:
  "(http_connection_write c d = (-1, c') \<longrightarrow> wbuf c' = wbuf c)
   \<and> (http_connection_printf c d = (-1, c') \<longrightarrow> wbuf c' = wbuf c)"
  using http_connection_write_cases(2) [of c d "-1" c']
  by (auto simp: write_printf_same)

theorem http_connection_write_failure_witness:
  "fst (http_connection_write ((conn0 (request0 HTTP_GET ''/x'' 1 0))\<lparr>rets := [0, -1]\<rparr>) ''abc'') = -1
   \<and> wbuf (snd (http_connection_write
                  ((conn0 (request0 HTTP_GET ''/x'' 1 0))\<lparr>rets := [0, -1]\<rparr>) ''abc'')) = []
   \<and> trace (snd (http_connection_write
                  ((conn0 (request0 HTTP_GET ''/x'' 1 0))\<lparr>rets := [0, -1]\<rparr>) ''abc''))
       = [Event_add Ev_write]
   \<and> fst (http_connection_printf ((conn0 (request0 HTTP_GET ''/x'' 1 0))\<lparr>rets := [-1]\<rparr>) ''abc'') = -1
   \<and> wbuf (snd (http_connection_printf
                  ((conn0 (request0 HTTP_GET ''/x'' 1 0))\<lparr>rets := [-1]\<rparr>) ''abc'')) = []"
proof -
  let ?c = "(conn0 (request0 HTTP_GET ''/x'' 1 0))\<lparr>rets := [0, -1]\<rparr>"
  let ?d = "(conn0 (request0 HTTP_GET ''/x'' 1 0))\<lparr>rets := [-1]\<rparr>"
  have r: "fst (http_connection_write ?c ''abc'') = -1"
    and t: "trace (snd (http_connection_write ?c ''abc'')) = [Event_add Ev_write]"
    and q: "fst (http_connection_printf ?d ''abc'') = -1"
    by (simp_all add: http_connection_write_def http_connection_printf_def bf_buffer_add_def
        event_add_def libcall_def log_def conn0_def stuck_def)
  have e: "http_connection_write ?c ''abc'' = (-1, snd (http_connection_write ?c ''abc''))"
    using r by (metis prod.collapse)
  have f: "http_connection_printf ?d ''abc'' = (-1, snd (http_connection_printf ?d ''abc''))"
    using q by (metis prod.collapse)
  have "wbuf (snd (http_connection_write ?c ''abc'')) = wbuf ?c"
    using http_connection_write_failure [of ?c "''abc''" "snd (http_connection_write ?c ''abc'')"] e
    by simp
  moreover have "wbuf (snd (http_connection_printf ?d ''abc'')) = wbuf ?d"
    using http_connection_write_failure [of ?d "''abc''" "snd (http_connection_printf ?d ''abc'')"] f
    by simp
  ultimately show ?thesis using r t q by (simp add: conn0_def)
qed

subsection \<open>Write event\<close>

lemma size_t_of_count: "0 \<le> i \<Longrightarrow> i < 2 ^ 64 \<Longrightarrow> size_t_of i = nat i"
  by (simp add: size_t_of_def)

lemma libcall_snd: "snd (libcall c) = c\<lparr>rets := tl (rets c)\<rparr>"
  by (simp add: libcall_def split: list.splits)

lemma event_del_snd: "snd (event_del c e) = after_event_del e c"
  by (simp add: event_del_def after_event_del_def libcall_snd split: prod.splits)
     (metis libcall_snd snd_conv)

lemma http_connection_close_live:
  assumes "\<not> stuck c"
  shows "connections (server (http_connection_close c))
           = (if 0 \<le> sock c then connections (server c) - {sock c}
              else connections (server c))
    \<and> trace (http_connection_close c)
        = trace c @ (if 0 \<le> sock c then [Sock_close (sock c)] else [])
          @ (if ev_read c then [Event_free Ev_read] else [])
          @ (if ev_write c then [Event_free Ev_write] else [])
          @ [Bf_buffer_delete Rbuf, Bf_buffer_delete Wbuf, Http_parser_free, Http_free]
    \<and> freed (http_connection_close c) \<and> wbuf (http_connection_close c) = []"
  using assms
  by (simp add: http_connection_close_def log_def Let_def)

lemma on_write_event_result:
  assumes "\<not> stuck c" and "ret \<noteq> -1"
  shows "http_connection_on_write_event c ret
           = (if drop (size_t_of ret) (wbuf c) \<noteq> [] then after_write c ret
              else if shutting_down c
              then http_connection_close (after_event_del Ev_write (after_write c ret))
              else after_event_del Ev_write (after_write c ret))"
proof -
  define c1 where "c1 = after_write c ret"
  have c1: "(log (Sock_write (sock c)) c)\<lparr>wbuf := drop (size_t_of ret) (wbuf (log (Sock_write (sock c)) c))\<rparr> = c1"
    by (simp add: c1_def after_write_def log_def)
  have w: "wbuf c1 = drop (size_t_of ret) (wbuf c)"
    by (simp add: c1_def after_write_def)
  have sd: "shutting_down (after_event_del Ev_write c1) = shutting_down c"
    by (simp add: after_event_del_def c1_def after_write_def log_def)
  have "http_connection_on_write_event c ret
          = (if length (wbuf c1) = 0
             then (if shutting_down (snd (event_del c1 Ev_write))
                   then http_connection_close (snd (event_del c1 Ev_write))
                   else snd (event_del c1 Ev_write))
             else c1)"
    using assms
    by (simp only: http_connection_on_write_event_def Let_def c1 case_prod_beta if_False)
  then show ?thesis
    unfolding c1_def [symmetric] by (simp add: event_del_snd sd w)
qed

text \<open>
  C7.  On a write event whose socket write succeeds (\<open>bf_buffer_write\<close> returns a value
  other than -1), the write buffer is what was left after dropping the written prefix
  (\<open>size_t_of ret\<close> is \<open>ret\<close> itself for a byte count).  When that is not empty, the
  connection is exactly the one after the write: nothing else is called, it stays open
  and in the server's table.  When it is empty and the connection is not shutting down,
  the write event is deleted and nothing else is done: the socket stays open and the
  table entry stays.  When it is empty and the connection is shutting down, the write
  event is deleted and the result is that of \<open>http_connection_close\<close>: the socket is
  closed, its table entry removed, events, buffers, parser and connection freed.
\<close>

theorem http_connection_on_write_event_drain:
  assumes "\<not> stuck c" and "ret \<noteq> -1"
  shows "wbuf (http_connection_on_write_event c ret) = drop (size_t_of ret) (wbuf c)
    \<and> (drop (size_t_of ret) (wbuf c) = [] \<longrightarrow>
          Event_del Ev_write
            \<in> set (effects_since (length (trace c)) (http_connection_on_write_event c ret))
          \<and> (freed (http_connection_on_write_event c ret) \<longleftrightarrow> shutting_down c))
    \<and> (drop (size_t_of ret) (wbuf c) \<noteq> [] \<longrightarrow>
          \<not> freed (http_connection_on_write_event c ret)
          \<and> trace (http_connection_on_write_event c ret) = trace c @ [Sock_write (sock c)])
    \<and> (drop (size_t_of ret) (wbuf c) \<noteq> [] \<longrightarrow>
          http_connection_on_write_event c ret = after_write c ret)
    \<and> (drop (size_t_of ret) (wbuf c) = [] \<and> \<not> shutting_down c \<longrightarrow>
          http_connection_on_write_event c ret
            = after_event_del Ev_write (after_write c ret)
          \<and> trace (http_connection_on_write_event c ret)
              = trace c @ [Sock_write (sock c), Event_del Ev_write])
    \<and> (drop (size_t_of ret) (wbuf c) = [] \<and> shutting_down c \<longrightarrow>
          http_connection_on_write_event c ret
            = http_connection_close (after_event_del Ev_write (after_write c ret))
          \<and> trace (http_connection_on_write_event c ret)
              = trace c @ [Sock_write (sock c), Event_del Ev_write]
                @ (if 0 \<le> sock c then [Sock_close (sock c)] else [])
                @ (if ev_read c then [Event_free Ev_read] else [])
                @ (if ev_write c then [Event_free Ev_write] else [])
                @ [Bf_buffer_delete Rbuf, Bf_buffer_delete Wbuf, Http_parser_free, Http_free]
          \<and> connections (server (http_connection_on_write_event c ret))
              = (if 0 \<le> sock c then connections (server c) - {sock c}
                 else connections (server c)))
    \<and> (\<not> (drop (size_t_of ret) (wbuf c) = [] \<and> shutting_down c) \<longrightarrow>
          connections (server (http_connection_on_write_event c ret)) = connections (server c)
          \<and> sock (http_connection_on_write_event c ret) = sock c
          \<and> \<not> freed (http_connection_on_write_event c ret))"
proof -
  let ?rest = "drop (size_t_of ret) (wbuf c)"
  let ?c1 = "after_write c ret"
  let ?c2 = "after_event_del Ev_write ?c1"
  have f1: "\<not> stuck ?c1" "wbuf ?c1 = ?rest" "trace ?c1 = trace c @ [Sock_write (sock c)]"
    "server ?c1 = server c" "sock ?c1 = sock c" "freed ?c1 = freed c"
    "ev_read ?c1 = ev_read c" "ev_write ?c1 = ev_write c"
    using assms(1) by (simp_all add: after_write_def log_def stuck_def)
  have f2: "\<not> stuck ?c2" "wbuf ?c2 = ?rest"
    "trace ?c2 = trace c @ [Sock_write (sock c), Event_del Ev_write]"
    "server ?c2 = server c" "sock ?c2 = sock c" "freed ?c2 = freed c"
    "ev_read ?c2 = ev_read c" "ev_write ?c2 = ev_write c"
    using f1 by (simp_all add: after_event_del_def log_def stuck_def)
  have nf: "\<not> freed c" using assms(1) by (simp add: stuck_def)
  note r = on_write_event_result [OF assms]
  note cl = http_connection_close_live [OF f2(1)]
  show ?thesis
    using r cl f1 f2 nf by (auto simp: effects_since_def)
qed

theorem http_connection_on_write_event_drain_witness:
  "wbuf (http_connection_on_write_event
           ((conn0 (request0 HTTP_GET ''/x'' 1 0))\<lparr>wbuf := ''abc'', shutting_down := True\<rparr>) 3) = []
   \<and> freed (http_connection_on_write_event
           ((conn0 (request0 HTTP_GET ''/x'' 1 0))\<lparr>wbuf := ''abc'', shutting_down := True\<rparr>) 3)
   \<and> wbuf (http_connection_on_write_event
           ((conn0 (request0 HTTP_GET ''/x'' 1 0))\<lparr>wbuf := ''abc'', shutting_down := True\<rparr>) 2) = ''c''
   \<and> \<not> freed (http_connection_on_write_event
           ((conn0 (request0 HTTP_GET ''/x'' 1 0))\<lparr>wbuf := ''abc'', shutting_down := True\<rparr>) 2)
   \<and> trace (http_connection_on_write_event
           ((conn0 (request0 HTTP_GET ''/x'' 1 0))\<lparr>wbuf := ''abc'', shutting_down := True\<rparr>) 3)
       = [Sock_write 7, Event_del Ev_write, Sock_close 7, Event_free Ev_read,
          Event_free Ev_write, Bf_buffer_delete Rbuf, Bf_buffer_delete Wbuf,
          Http_parser_free, Http_free]
   \<and> connections (server (http_connection_on_write_event
           ((conn0 (request0 HTTP_GET ''/x'' 1 0))\<lparr>wbuf := ''abc'', shutting_down := True\<rparr>) 3))
       = {}
   \<and> trace (http_connection_on_write_event
           ((conn0 (request0 HTTP_GET ''/x'' 1 0))\<lparr>wbuf := ''abc'', shutting_down := True\<rparr>) 2)
       = [Sock_write 7]
   \<and> connections (server (http_connection_on_write_event
           ((conn0 (request0 HTTP_GET ''/x'' 1 0))\<lparr>wbuf := ''abc'', shutting_down := True\<rparr>) 2))
       = {7}
   \<and> trace (http_connection_on_write_event
           ((conn0 (request0 HTTP_GET ''/x'' 1 0))\<lparr>wbuf := ''abc''\<rparr>) 3)
       = [Sock_write 7, Event_del Ev_write]
   \<and> connections (server (http_connection_on_write_event
           ((conn0 (request0 HTTP_GET ''/x'' 1 0))\<lparr>wbuf := ''abc''\<rparr>) 3))
       = {7}
   \<and> sock (http_connection_on_write_event
           ((conn0 (request0 HTTP_GET ''/x'' 1 0))\<lparr>wbuf := ''abc''\<rparr>) 3) = 7
   \<and> \<not> freed (http_connection_on_write_event
           ((conn0 (request0 HTTP_GET ''/x'' 1 0))\<lparr>wbuf := ''abc''\<rparr>) 3)"
proof -
  let ?c = "(conn0 (request0 HTTP_GET ''/x'' 1 0))\<lparr>wbuf := ''abc'', shutting_down := True\<rparr>"
  let ?d = "(conn0 (request0 HTTP_GET ''/x'' 1 0))\<lparr>wbuf := ''abc''\<rparr>"
  have live: "\<not> stuck ?c" "\<not> stuck ?d" by (simp_all add: conn0_def stuck_def)
  have f: "wbuf ?c = ''abc''" "shutting_down ?c" "wbuf ?d = ''abc''" "\<not> shutting_down ?d"
    "size_t_of 3 = 3" "size_t_of 2 = 2"
    "trace ?c = []" "trace ?d = []" "sock ?c = 7" "sock ?d = 7"
    "ev_read ?c" "ev_write ?c" "connections (server ?c) = {7}" "connections (server ?d) = {7}"
    by (simp_all add: conn0_def size_t_of_def)
  have a: "wbuf (http_connection_on_write_event ?c 3) = []
           \<and> freed (http_connection_on_write_event ?c 3)
           \<and> trace (http_connection_on_write_event ?c 3)
               = [Sock_write 7, Event_del Ev_write, Sock_close 7, Event_free Ev_read,
                  Event_free Ev_write, Bf_buffer_delete Rbuf, Bf_buffer_delete Wbuf,
                  Http_parser_free, Http_free]
           \<and> connections (server (http_connection_on_write_event ?c 3)) = {}"
    using http_connection_on_write_event_drain [OF live(1), of 3] f by force
  have b: "wbuf (http_connection_on_write_event ?c 2) = ''c''
           \<and> \<not> freed (http_connection_on_write_event ?c 2)
           \<and> trace (http_connection_on_write_event ?c 2) = [Sock_write 7]
           \<and> connections (server (http_connection_on_write_event ?c 2)) = {7}"
    using http_connection_on_write_event_drain [OF live(1), of 2] f by force
  have c: "trace (http_connection_on_write_event ?d 3) = [Sock_write 7, Event_del Ev_write]
           \<and> connections (server (http_connection_on_write_event ?d 3)) = {7}
           \<and> sock (http_connection_on_write_event ?d 3) = 7
           \<and> \<not> freed (http_connection_on_write_event ?d 3)"
    using http_connection_on_write_event_drain [OF live(2), of 3] f by force
  from a b c show ?thesis by simp
qed

subsection \<open>Closing\<close>


subsection \<open>Calls of handlers\<close>

lemma handler_calls_log:
  "handler_calls (log e c) = handler_calls c + (if e = Msg_handler then 1 else 0)"
  by (simp add: handler_calls_def log_def)

lemma handler_calls_update [simp]:
  "handler_calls (c\<lparr>shutting_down := b\<rparr>) = handler_calls c"
  "handler_calls (c\<lparr>wbuf := w\<rparr>) = handler_calls c"
  "handler_calls (c\<lparr>rets := rs\<rparr>) = handler_calls c"
  "handler_calls (c\<lparr>http_version := v\<rparr>) = handler_calls c"
  "handler_calls (c\<lparr>parser := p\<rparr>) = handler_calls c"
  "handler_calls (c\<lparr>fault := f\<rparr>) = handler_calls c"
  by (simp_all add: handler_calls_def)

lemma handler_calls_halt [simp]: "handler_calls (halt c) = handler_calls c"
  by (simp add: handler_calls_def halt_def)

lemma handler_calls_libcall:
  "libcall c = (r, c') \<Longrightarrow> handler_calls c' = handler_calls c"
  by (auto simp: handler_calls_def libcall_def split: list.splits)

lemma handler_calls_event_add:
  "event_add c e = (r, c') \<Longrightarrow> handler_calls c' = handler_calls c"
  by (auto simp: event_add_def handler_calls_log split: prod.splits dest: handler_calls_libcall)

lemma handler_calls_event_del:
  "event_del c e = (r, c') \<Longrightarrow> handler_calls c' = handler_calls c"
  by (auto simp: event_del_def handler_calls_log split: prod.splits dest: handler_calls_libcall)

lemma handler_calls_sock_shutdown_rd:
  "sock_shutdown_rd c = (r, c') \<Longrightarrow> handler_calls c' = handler_calls c"
  by (auto simp: sock_shutdown_rd_def handler_calls_log split: prod.splits
      dest: handler_calls_libcall)

lemma handler_calls_bf_buffer_add:
  "bf_buffer_add c d = (r, c') \<Longrightarrow> handler_calls c' = handler_calls c"
  by (auto simp: bf_buffer_add_def handler_calls_def libcall_def split: list.splits if_splits)

lemma handler_calls_error [simp]:
  "handler_calls (http_connection_error c) = handler_calls c"
  by (simp add: http_connection_error_def handler_calls_log)

lemma handler_calls_trace [simp]:
  "handler_calls (http_connection_trace c) = handler_calls c"
  by (simp add: http_connection_trace_def handler_calls_log)

lemma handler_calls_close [simp]:
  "handler_calls (http_connection_close c) = handler_calls c"
  by (simp add: http_connection_close_def handler_calls_def log_def Let_def halt_def)

lemma handler_calls_shutdown:
  "http_connection_shutdown c = (r, c') \<Longrightarrow> handler_calls c' = handler_calls c"
  by (auto simp: http_connection_shutdown_def split: prod.splits if_splits
      dest!: handler_calls_event_del handler_calls_sock_shutdown_rd)

lemma handler_calls_write:
  "http_connection_write c d = (r, c') \<Longrightarrow> handler_calls c' = handler_calls c"
  by (auto simp: http_connection_write_def Let_def
      split: prod.splits if_splits
      dest!: handler_calls_bf_buffer_add handler_calls_event_add)

lemma handler_calls_printf:
  "http_connection_printf c d = (r, c') \<Longrightarrow> handler_calls c' = handler_calls c"
  by (simp add: write_printf_same handler_calls_write)

lemma handler_calls_write_response:
  "http_connection_write_response X c code rp = (r, c') \<Longrightarrow> handler_calls c' = handler_calls c"
  by (auto simp: http_connection_write_response_def
      split: prod.splits if_splits option.splits dest!: handler_calls_printf)

lemma handler_calls_write_header:
  "http_connection_write_header c n v = (r, c') \<Longrightarrow> handler_calls c' = handler_calls c"
  by (auto simp: http_connection_write_header_def
      split: prod.splits if_splits dest!: handler_calls_printf handler_calls_write)

lemma handler_calls_write_body:
  "http_connection_write_body c b = (r, c') \<Longrightarrow> handler_calls c' = handler_calls c"
  by (auto simp: http_connection_write_body_def
      split: prod.splits if_splits dest!: handler_calls_write)

lemma handler_calls_http_error:
  "http_connection_http_error X c code = (r, c') \<Longrightarrow> handler_calls c' = handler_calls c"
  by (auto simp: http_connection_http_error_def Let_def
      split: prod.splits if_splits
      dest!: handler_calls_write_response handler_calls_write_header handler_calls_write_body)

lemma handler_calls_http_error_snd [simp]:
  "handler_calls (snd (http_connection_http_error X c code)) = handler_calls c"
  using handler_calls_http_error [of X c code] by (metis prod.collapse)

lemma handler_calls_process_msg_end [simp]:
  "handler_calls (process_msg_end c) = handler_calls c"
  by (auto simp: process_msg_end_def split: prod.splits dest!: handler_calls_shutdown)

subsection \<open>Processing a request\<close>

lemma do_shutdown_version_policy: "do_shutdown m = version_policy m"
  by (simp add: do_shutdown_policy version_policy_def)

lemma process_msg_end_shutdown:
  "\<not> stuck c \<Longrightarrow>
   process_msg_end c = (if version_policy (msg (parser c)) then shutdown_at_end c else c)"
  by (simp add: process_msg_end_def shutdown_at_end_def do_shutdown_version_policy)

lemma shutdown_at_end_ok:
  "\<not> stuck c \<Longrightarrow> rets c = [] \<Longrightarrow>
   shutdown_at_end c
     = c\<lparr>trace := trace c @ [Event_del Ev_read, Sock_shutdown_rd (sock c)],
          shutting_down := True\<rparr>"
  by (simp add: shutdown_at_end_def http_connection_shutdown_ok)

lemma shutdown_at_end_trace:
  "\<not> stuck c \<Longrightarrow> trace (shutdown_at_end c) \<noteq> trace c"
  using shutdown_trace_grows [of c]
  by (auto simp: shutdown_at_end_def http_connection_error_def halt_def log_def
      split: prod.splits)

lemma process_msg_handler_path:
  assumes "\<not> stuck c"
    and "msg_type (msg (parser c)) = HTTP_MSG_REQUEST"
    and "request_uri_string (msg (parser c)) \<noteq> ''*''"
    and "http_uri_new X (request_uri_string (msg (parser c))) = Some u"
    and "http_route_base_find_msg_handler X (request_method (msg (parser c))) (path u)
           = (Some handler, mr)"
  shows "http_connection_process_msg X c
           = process_msg_end (handler (log Msg_handler (with_request_uri c u)))"
  using assms
  by (simp add: http_connection_process_msg_def with_request_uri_def Let_def)

lemma process_msg_no_route_path:
  assumes "\<not> stuck c"
    and "msg_type (msg (parser c)) = HTTP_MSG_REQUEST"
    and "request_uri_string (msg (parser c)) \<noteq> ''*''"
    and "http_uri_new X (request_uri_string (msg (parser c))) = Some u"
    and "http_route_base_find_msg_handler X (request_method (msg (parser c))) (path u)
           = (None, mr)"
  shows "http_connection_process_msg X c
           = process_msg_end
               (snd (http_connection_http_error X (with_request_uri c u)
                       (if mr = HTTP_ROUTE_MATCH_WRONG_METHOD then HTTP_METHOD_NOT_ALLOWED
                        else HTTP_NOT_FOUND)))"
  using assms
  by (cases mr) (simp_all add: http_connection_process_msg_def with_request_uri_def Let_def)

lemma process_msg_star_path:
  assumes "\<not> stuck c"
    and "msg_type (msg (parser c)) = HTTP_MSG_REQUEST"
    and "request_uri_string (msg (parser c)) = ''*''"
  shows "http_connection_process_msg X c
           = process_msg_end
               (snd (http_connection_http_error X
                       (http_connection_trace (c\<lparr>http_version := version (msg (parser c))\<rparr>))
                       HTTP_BAD_REQUEST))"
  using assms
  by (simp add: http_connection_process_msg_def Let_def)

lemma process_msg_error_response:
  assumes "\<not> stuck c" and "rets c = []"
    and "http_version_to_string X (http_version c) = Some vs"
    and "http_status_code_to_reason_phrase X code = Some rp"
  shows "process_msg_end (snd (http_connection_http_error X c code))
           = (if version_policy (msg (parser c))
              then (emit c (error_response vs code rp))
                     \<lparr>trace := trace (emit c (error_response vs code rp))
                                @ [Event_del Ev_read, Sock_shutdown_rd (sock c)],
                      shutting_down := True\<rparr>
              else emit c (error_response vs code rp))"
  using assms
  by (simp add: http_connection_http_error_ok process_msg_end_shutdown shutdown_at_end_ok)

text \<open>
  C1.  When a request has been routed to a handler and the handler has returned with the
  connection still live, \<open>http_connection_process_msg\<close> shuts the connection down exactly
  when the version policy says so, read from the message as it then is: for version 1.0
  unless the options contain keep-alive, for version 1.1 if and only if they contain
  close, for any other version always.  Otherwise the connection is left as the handler
  returned it.  A shutdown is never the identity, and when its library calls succeed the
  connection is marked as shutting down.
\<close>

theorem http_connection_process_msg_keep_alive:
  assumes "\<not> stuck c"
    and "msg_type (msg (parser c)) = HTTP_MSG_REQUEST"
    and "request_uri_string (msg (parser c)) \<noteq> ''*''"
    and "http_uri_new X (request_uri_string (msg (parser c))) = Some u"
    and "http_route_base_find_msg_handler X (request_method (msg (parser c))) (path u)
           = (Some handler, mr)"
    and "c' = handler (log Msg_handler (with_request_uri c u))"
    and "\<not> stuck c'"
  shows "http_connection_process_msg X c
           = (if version_policy (msg (parser c')) then shutdown_at_end c' else c')
    \<and> (version (msg (parser c')) = HTTP_1_0 \<longrightarrow>
          (http_connection_process_msg X c = shutdown_at_end c'
             \<longleftrightarrow> \<not> has_keep_alive (msg (parser c'))))
    \<and> (version (msg (parser c')) = HTTP_1_1 \<longrightarrow>
          (http_connection_process_msg X c = shutdown_at_end c'
             \<longleftrightarrow> has_close (msg (parser c'))))
    \<and> (version (msg (parser c')) \<noteq> HTTP_1_0 \<and> version (msg (parser c')) \<noteq> HTTP_1_1 \<longrightarrow>
          http_connection_process_msg X c = shutdown_at_end c')
    \<and> shutdown_at_end c' \<noteq> c'
    \<and> (rets c' = [] \<longrightarrow> shutting_down (shutdown_at_end c'))"
proof -
  have e: "http_connection_process_msg X c
             = (if version_policy (msg (parser c')) then shutdown_at_end c' else c')"
    using assms by (simp add: process_msg_handler_path process_msg_end_shutdown)
  have n: "shutdown_at_end c' \<noteq> c'"
    using shutdown_at_end_trace [OF assms(7)] by auto
  have s: "rets c' = [] \<longrightarrow> shutting_down (shutdown_at_end c')"
    using assms(7) by (simp add: shutdown_at_end_ok)
  show ?thesis
    using e n s by (auto simp: version_policy_def)
qed

lemma conn0_live [simp]:
  "\<not> stuck (conn0 m)" "rets (conn0 m) = []" "wbuf (conn0 m) = []" "trace (conn0 m) = []"
  "msg (parser (conn0 m)) = m" "sock (conn0 m) = 7" "http_version (conn0 m) = 1"
  "\<not> shutting_down (conn0 m)" "\<not> freed (conn0 m)" "last_activity (conn0 m) = 1000"
  by (simp_all add: conn0_def stuck_def)

lemma with_request_uri_fields [simp]:
  "stuck (with_request_uri c u) = stuck c" "rets (with_request_uri c u) = rets c"
  "wbuf (with_request_uri c u) = wbuf c" "trace (with_request_uri c u) = trace c"
  "sock (with_request_uri c u) = sock c"
  "http_version (with_request_uri c u) = version (msg (parser c))"
  "shutting_down (with_request_uri c u) = shutting_down c"
  "version (msg (parser (with_request_uri c u))) = version (msg (parser c))"
  "connection_options (msg (parser (with_request_uri c u))) = connection_options (msg (parser c))"
  by (simp_all add: with_request_uri_def stuck_def)

lemma version_policy_with_request_uri [simp]:
  "version_policy (msg (parser (with_request_uri c u))) = version_policy (msg (parser c))"
  by (simp add: version_policy_def has_keep_alive_def has_close_def)

lemma handler0_ok:
  "\<not> stuck c \<Longrightarrow> rets c = [] \<Longrightarrow> handler0 c = emit c ''hello''"
  by (simp add: handler0_def http_connection_write_ok)

theorem http_connection_process_msg_keep_alive_witness:
  "shutting_down (http_connection_process_msg externs0 (conn0 (request0 HTTP_GET ''/x'' 1 2)))
   \<and> \<not> shutting_down
         (http_connection_process_msg externs0 (conn0 (request0 HTTP_GET ''/x'' 0 1)))
   \<and> wbuf (http_connection_process_msg externs0 (conn0 (request0 HTTP_GET ''/x'' 0 1)))
       = ''hello''"
proof -
  let ?u = "\<lparr>path = ''/x''\<rparr>"
  let ?a = "conn0 (request0 HTTP_GET ''/x'' 1 2)"
  let ?b = "conn0 (request0 HTTP_GET ''/x'' 0 1)"
  let ?a' = "emit (log Msg_handler (with_request_uri ?a ?u)) ''hello''"
  let ?b' = "emit (log Msg_handler (with_request_uri ?b ?u)) ''hello''"
  have ha: "?a' = handler0 (log Msg_handler (with_request_uri ?a ?u))"
    and hb: "?b' = handler0 (log Msg_handler (with_request_uri ?b ?u))"
    by (simp_all add: handler0_ok)
  have pa: "version_policy (msg (parser ?a'))"
    and pb: "\<not> version_policy (msg (parser ?b'))"
    by (simp_all add: version_policy_def has_keep_alive_def has_close_def request0_def)
  have a: "http_connection_process_msg externs0 ?a = shutdown_at_end ?a'
           \<and> shutting_down (shutdown_at_end ?a')"
    using http_connection_process_msg_keep_alive
            [of ?a externs0 ?u handler0 HTTP_ROUTE_MATCH_OK ?a', OF _ _ _ _ _ ha] pa
    by (simp add: request0_def externs0_def)
  have b: "http_connection_process_msg externs0 ?b = ?b'"
    using http_connection_process_msg_keep_alive
            [of ?b externs0 ?u handler0 HTTP_ROUTE_MATCH_OK ?b', OF _ _ _ _ _ hb] pb
    by (simp add: request0_def externs0_def)
  from a b show ?thesis by simp
qed

text \<open>
  C4 (as the code has it).  For a request whose target is \<open>*\<close>,
  \<open>http_connection_process_msg\<close> reports the target to the trace hook, sends the 400
  response with \<open>http_connection_http_error\<close> and goes to the label \<^verbatim>\<open>end\<close>; it calls
  no handler.  When the library calls succeed, the 400 response is appended to the write
  buffer and the connection is shut down exactly when the version policy says so: the
  only calls made are the trace hook, the adding of the write event for an empty buffer
  and, under the policy, the two calls of the shutdown.
\<close>

theorem http_connection_process_msg_star:
  assumes "\<not> stuck c"
    and "msg_type (msg (parser c)) = HTTP_MSG_REQUEST"
    and "request_uri_string (msg (parser c)) = ''*''"
  shows "http_connection_process_msg X c
           = process_msg_end
               (snd (http_connection_http_error X
                       (http_connection_trace (c\<lparr>http_version := version (msg (parser c))\<rparr>))
                       HTTP_BAD_REQUEST))
    \<and> handler_calls (http_connection_process_msg X c) = handler_calls c
    \<and> (rets c = [] \<and> http_version_to_string X (version (msg (parser c))) = Some vs
        \<and> http_status_code_to_reason_phrase X HTTP_BAD_REQUEST = Some rp \<longrightarrow>
          wbuf (http_connection_process_msg X c)
            = wbuf c @ error_response vs HTTP_BAD_REQUEST rp
          \<and> trace (http_connection_process_msg X c)
              = trace c @ [Http_server_trace]
                @ (if wbuf c = [] then [Event_add Ev_write] else [])
                @ (if version_policy (msg (parser c))
                   then [Event_del Ev_read, Sock_shutdown_rd (sock c)] else [])
          \<and> (shutting_down (http_connection_process_msg X c)
                \<longleftrightarrow> shutting_down c \<or> version_policy (msg (parser c))))"
proof -
  define c1 where "c1 = log Http_server_trace (c\<lparr>http_version := version (msg (parser c))\<rparr>)"
  have t: "http_connection_trace (c\<lparr>http_version := version (msg (parser c))\<rparr>) = c1"
    using assms(1) by (simp add: c1_def http_connection_trace_def stuck_def)
  have l: "\<not> stuck c1" "rets c1 = rets c" "http_version c1 = version (msg (parser c))"
    "wbuf c1 = wbuf c" "trace c1 = trace c @ [Http_server_trace]" "sock c1 = sock c"
    "parser c1 = parser c" "shutting_down c1 = shutting_down c"
    "handler_calls c1 = handler_calls c"
    using assms(1) by (simp_all add: c1_def log_def stuck_def handler_calls_def)
  have e: "http_connection_process_msg X c
             = process_msg_end (snd (http_connection_http_error X c1 HTTP_BAD_REQUEST))"
    using process_msg_star_path [OF assms(1-3), of X] by (simp add: t)
  have h: "handler_calls (http_connection_process_msg X c) = handler_calls c"
    by (simp add: e l)
  have ok: "http_connection_process_msg X c
           = (if version_policy (msg (parser c1))
              then (emit c1 (error_response vs HTTP_BAD_REQUEST rp))
                     \<lparr>trace := trace (emit c1 (error_response vs HTTP_BAD_REQUEST rp))
                                @ [Event_del Ev_read, Sock_shutdown_rd (sock c1)],
                      shutting_down := True\<rparr>
              else emit c1 (error_response vs HTTP_BAD_REQUEST rp))"
    if "rets c = []" "http_version_to_string X (version (msg (parser c))) = Some vs"
       "http_status_code_to_reason_phrase X HTTP_BAD_REQUEST = Some rp"
    unfolding e using l(1) that
    by (intro process_msg_error_response) (simp_all add: l)
  show ?thesis
    using e h ok by (simp add: l t)
qed

theorem http_connection_process_msg_star_witness:
  "wbuf (http_connection_process_msg externs0 (conn0 (request0 HTTP_OPTIONS ''*'' 1 2)))
     = error_response ''HTTP/1.1'' 400 ''Bad Request''
   \<and> shutting_down (http_connection_process_msg externs0 (conn0 (request0 HTTP_OPTIONS ''*'' 1 2)))
   \<and> trace (http_connection_process_msg externs0 (conn0 (request0 HTTP_OPTIONS ''*'' 1 2)))
     = [Http_server_trace, Event_add Ev_write, Event_del Ev_read, Sock_shutdown_rd 7]"
proof -
  let ?c = "conn0 (request0 HTTP_OPTIONS ''*'' 1 2)"
  have p: "version_policy (msg (parser ?c))"
    by (simp add: version_policy_def has_close_def request0_def)
  from http_connection_process_msg_star
         [of ?c externs0 "''HTTP/1.1''" "''Bad Request''", THEN conjunct2, THEN conjunct2] p
  show ?thesis
    by (simp add: request0_def externs0_def)
qed

text \<open>
  C4 as stated fails: an HTTP/1.1 request for \<open>*\<close> without \<open>Connection: close\<close> gets
  the 400 response, and the connection is not shut down.
\<close>

theorem http_connection_process_msg_star_counterexample:
  "request_uri_string (msg (parser (conn0 (request0 HTTP_OPTIONS ''*'' 1 0)))) = ''*''
   \<and> wbuf (http_connection_process_msg externs0 (conn0 (request0 HTTP_OPTIONS ''*'' 1 0)))
       = error_response ''HTTP/1.1'' 400 ''Bad Request''
   \<and> \<not> shutting_down
         (http_connection_process_msg externs0 (conn0 (request0 HTTP_OPTIONS ''*'' 1 0)))
   \<and> trace (http_connection_process_msg externs0 (conn0 (request0 HTTP_OPTIONS ''*'' 1 0)))
       = [Http_server_trace, Event_add Ev_write]"
proof -
  let ?c = "conn0 (request0 HTTP_OPTIONS ''*'' 1 0)"
  define c1 where "c1 = log Http_server_trace (?c\<lparr>http_version := 1\<rparr>)"
  have l: "\<not> stuck c1" "rets c1 = []" "http_version c1 = 1" "wbuf c1 = []"
    "trace c1 = [Http_server_trace]" "\<not> shutting_down c1"
    "msg (parser c1) = request0 HTTP_OPTIONS ''*'' 1 0"
    by (simp_all add: c1_def conn0_def log_def stuck_def)
  have p: "\<not> version_policy (msg (parser c1))"
    by (simp add: l version_policy_def has_close_def request0_def)
  have "http_connection_process_msg externs0 ?c
          = process_msg_end (snd (http_connection_http_error externs0 c1 HTTP_BAD_REQUEST))"
    using process_msg_star_path [of ?c externs0]
    by (simp add: c1_def http_connection_trace_def stuck_def conn0_def request0_def)
  also have "\<dots> = emit c1 (error_response ''HTTP/1.1'' 400 ''Bad Request'')"
    using process_msg_error_response
            [of c1 externs0 "''HTTP/1.1''" HTTP_BAD_REQUEST "''Bad Request''"] p l
    by (simp add: externs0_def)
  finally show ?thesis
    by (simp add: l request0_def)
qed

text \<open>
  C3 (as the code has it).  For a request whose target is not \<open>*\<close> and parses, and for
  which the route lookup returns no handler, \<open>http_connection_process_msg\<close> sends the
  canned error response with \<open>http_connection_http_error\<close>, status 405 when the lookup
  reported a wrong method and status 404 for every other result, and goes to the label
  \<^verbatim>\<open>end\<close>; it calls no handler.  When the library calls succeed, the write buffer gains
  exactly that response: the status line, \<open>Content-Type\<close>, \<open>Content-Length\<close>, an empty
  line and the body, with no other header field.
\<close>

theorem http_connection_process_msg_no_route:
  assumes "\<not> stuck c"
    and "msg_type (msg (parser c)) = HTTP_MSG_REQUEST"
    and "request_uri_string (msg (parser c)) \<noteq> ''*''"
    and "http_uri_new X (request_uri_string (msg (parser c))) = Some u"
    and "http_route_base_find_msg_handler X (request_method (msg (parser c))) (path u)
           = (None, mr)"
    and "code = (if mr = HTTP_ROUTE_MATCH_WRONG_METHOD then HTTP_METHOD_NOT_ALLOWED
                 else HTTP_NOT_FOUND)"
  shows "http_connection_process_msg X c
           = process_msg_end (snd (http_connection_http_error X (with_request_uri c u) code))
    \<and> handler_calls (http_connection_process_msg X c) = handler_calls c
    \<and> (rets c = [] \<and> http_version_to_string X (version (msg (parser c))) = Some vs
        \<and> http_status_code_to_reason_phrase X code = Some rp \<longrightarrow>
          wbuf (http_connection_process_msg X c) = wbuf c @ error_response vs code rp)"
proof -
  let ?c1 = "with_request_uri c u"
  have e: "http_connection_process_msg X c
             = process_msg_end (snd (http_connection_http_error X ?c1 code))"
    unfolding assms(6) using assms(1-5) by (rule process_msg_no_route_path)
  have h: "handler_calls (http_connection_process_msg X c) = handler_calls c"
    by (simp add: e with_request_uri_def)
  have ok: "http_connection_process_msg X c
           = (if version_policy (msg (parser ?c1))
              then (emit ?c1 (error_response vs code rp))
                     \<lparr>trace := trace (emit ?c1 (error_response vs code rp))
                                @ [Event_del Ev_read, Sock_shutdown_rd (sock ?c1)],
                      shutting_down := True\<rparr>
              else emit ?c1 (error_response vs code rp))"
    if "rets c = []" "http_version_to_string X (version (msg (parser c))) = Some vs"
       "http_status_code_to_reason_phrase X code = Some rp"
    unfolding e using assms(1) that
    by (intro process_msg_error_response) simp_all
  show ?thesis
    using e h ok by simp
qed

lemma error_response_405:
  "error_response ''HTTP/1.1'' 405 ''Method Not Allowed''
     = ''HTTP/1.1 405 Method Not Allowed'' @ CRLF
       @ ''Content-Type: text/html'' @ CRLF
       @ ''Content-Length: 32'' @ CRLF @ CRLF
       @ ''<h1>405 Method Not Allowed</h1>'' @ [CHR 0x0A]"
  by (simp add: error_response_def http_error_body_def fmt_d_def fmt_zu.simps)

lemma error_response_404:
  "error_response ''HTTP/1.1'' 404 ''Not Found''
     = ''HTTP/1.1 404 Not Found'' @ CRLF
       @ ''Content-Type: text/html'' @ CRLF
       @ ''Content-Length: 23'' @ CRLF @ CRLF
       @ ''<h1>404 Not Found</h1>'' @ [CHR 0x0A]"
  by (simp add: error_response_def http_error_body_def fmt_d_def fmt_zu.simps)

theorem http_connection_process_msg_no_route_witness:
  "wbuf (http_connection_process_msg externs0 (conn0 (request0 HTTP_PUT ''/x'' 1 0)))
     = ''HTTP/1.1 405 Method Not Allowed'' @ CRLF
       @ ''Content-Type: text/html'' @ CRLF
       @ ''Content-Length: 32'' @ CRLF @ CRLF
       @ ''<h1>405 Method Not Allowed</h1>'' @ [CHR 0x0A]
   \<and> wbuf (http_connection_process_msg externs0 (conn0 (request0 HTTP_GET ''/y'' 1 0)))
     = ''HTTP/1.1 404 Not Found'' @ CRLF
       @ ''Content-Type: text/html'' @ CRLF
       @ ''Content-Length: 23'' @ CRLF @ CRLF
       @ ''<h1>404 Not Found</h1>'' @ [CHR 0x0A]"
proof -
  have a: "wbuf (http_connection_process_msg externs0 (conn0 (request0 HTTP_PUT ''/x'' 1 0)))
             = error_response ''HTTP/1.1'' 405 ''Method Not Allowed''"
    using http_connection_process_msg_no_route
            [of "conn0 (request0 HTTP_PUT ''/x'' 1 0)" externs0 "\<lparr>path = ''/x''\<rparr>"
                HTTP_ROUTE_MATCH_WRONG_METHOD 405 "''HTTP/1.1''" "''Method Not Allowed''",
             THEN conjunct2, THEN conjunct2]
    by (simp add: request0_def externs0_def)
  have b: "wbuf (http_connection_process_msg externs0 (conn0 (request0 HTTP_GET ''/y'' 1 0)))
             = error_response ''HTTP/1.1'' 404 ''Not Found''"
    using http_connection_process_msg_no_route
            [of "conn0 (request0 HTTP_GET ''/y'' 1 0)" externs0 "\<lparr>path = ''/y''\<rparr>"
                HTTP_ROUTE_MATCH_WRONG_PATH 404 "''HTTP/1.1''" "''Not Found''",
             THEN conjunct2, THEN conjunct2]
    by (simp add: request0_def externs0_def)
  show ?thesis
    using a b by (simp only: error_response_405 error_response_404) 
qed

text \<open>
  C3 as stated fails: for \<^verbatim>\<open>PUT /x\<close> against the single route \<^verbatim>\<open>GET /x\<close> the lookup
  reports a wrong method, and the 405 response that is written has the header fields
  \<open>Content-Type\<close> and \<open>Content-Length\<close> and no \<open>Allow\<close>.
\<close>

theorem http_connection_process_msg_no_allow_counterexample:
  "http_route_base_find_msg_handler externs0 HTTP_PUT ''/x''
     = (None, HTTP_ROUTE_MATCH_WRONG_METHOD)
   \<and> wbuf (http_connection_process_msg externs0 (conn0 (request0 HTTP_PUT ''/x'' 1 0)))
       = error_response ''HTTP/1.1'' 405 ''Method Not Allowed''
   \<and> response_header_names
        (wbuf (http_connection_process_msg externs0 (conn0 (request0 HTTP_PUT ''/x'' 1 0))))
       = [''Content-Type'', ''Content-Length'']
   \<and> ''Allow'' \<notin> set (response_header_names
        (wbuf (http_connection_process_msg externs0 (conn0 (request0 HTTP_PUT ''/x'' 1 0)))))"
proof -
  let ?c = "conn0 (request0 HTTP_PUT ''/x'' 1 0)"
  let ?c1 = "with_request_uri ?c \<lparr>path = ''/x''\<rparr>"
  have r: "http_route_base_find_msg_handler externs0 HTTP_PUT ''/x''
             = (None, HTTP_ROUTE_MATCH_WRONG_METHOD)"
    by (simp add: externs0_def)
  have "http_connection_process_msg externs0 ?c
          = process_msg_end
              (snd (http_connection_http_error externs0 ?c1 HTTP_METHOD_NOT_ALLOWED))"
    using process_msg_no_route_path
            [of ?c externs0 "\<lparr>path = ''/x''\<rparr>" HTTP_ROUTE_MATCH_WRONG_METHOD]
    by (simp add: request0_def externs0_def)
  also have "\<dots> = emit ?c1 (error_response ''HTTP/1.1'' 405 ''Method Not Allowed'')"
    using process_msg_error_response
            [of ?c1 externs0 "''HTTP/1.1''" HTTP_METHOD_NOT_ALLOWED "''Method Not Allowed''"]
    by (simp add: externs0_def request0_def version_policy_def has_close_def)
  finally have w: "wbuf (http_connection_process_msg externs0 ?c)
                     = error_response ''HTTP/1.1'' 405 ''Method Not Allowed''"
    by simp
  have n: "response_header_names (error_response ''HTTP/1.1'' 405 ''Method Not Allowed'')
             = [''Content-Type'', ''Content-Length'']"
    by (simp add: error_response_405 response_header_names_def CRLF_def)
  show ?thesis
    using r w n by simp
qed

subsection \<open>Read event\<close>

lemma stuck_update [simp]:
  "stuck (c\<lparr>rbuf := rb\<rparr>) = stuck c" "stuck (c\<lparr>wbuf := w\<rparr>) = stuck c"
  "stuck (c\<lparr>parser := p\<rparr>) = stuck c" "stuck (c\<lparr>http_version := v\<rparr>) = stuck c"
  "stuck (c\<lparr>trace := t\<rparr>) = stuck c" "stuck (c\<lparr>rets := rs\<rparr>) = stuck c"
  "stuck (c\<lparr>shutting_down := b\<rparr>) = stuck c" "stuck (c\<lparr>last_activity := la\<rparr>) = stuck c"
  by (simp_all add: stuck_def)

lemma read_loop_error_step:
  assumes "\<not> stuck c"
    and "http_msg_parse X (rbuf c) (parser c) = (ret, rb, p)"
    and "ret \<noteq> -1" and "ret \<noteq> 0"
    and "state p = HTTP_PARSER_ERROR"
  shows "read_loop X c
           = Some (True,
               snd (http_connection_shutdown
                      (snd (http_connection_http_error X
                              (http_connection_error (c\<lparr>rbuf := rb, parser := p\<rparr>))
                              (status_code p)))))"
  using assms by (subst read_loop.simps) simp

lemma read_loop_done_step:
  assumes "\<not> stuck c"
    and "http_msg_parse X (rbuf c) (parser c) = (ret, rb, p)"
    and "ret \<noteq> -1" and "ret \<noteq> 0"
    and "state p = HTTP_PARSER_DONE"
    and "request_hook X = None"
    and "c3 = http_connection_process_msg X (c\<lparr>rbuf := rb, parser := p\<rparr>)"
    and "\<not> stuck c3"
    and "http_parser_reset X (parser c3) = (0, p')"
  shows "read_loop X c = read_loop X (c3\<lparr>parser := p'\<rparr>)"
  using assms by (subst read_loop.simps) (simp add: Let_def)

lemma shutdown_stuck_or_down:
  "stuck (snd (http_connection_shutdown c)) \<or> shutting_down (snd (http_connection_shutdown c))"
  by (auto simp: http_connection_shutdown_def event_del_def sock_shutdown_rd_def libcall_def
      log_def http_connection_close_def halt_def stuck_def Let_def split: list.splits)

text \<open>
  C2.  When, in the loop of the read event, the parser returns with state
  \<open>HTTP_PARSER_ERROR\<close> (and a return value that is neither -1 nor 0), the loop ends at
  once with a return from the function: the error is reported, the canned response for
  the parser's status code is sent with \<open>http_connection_http_error\<close>, and the connection
  is shut down with \<open>http_connection_shutdown\<close>; the parser is not called again.  The
  connection is then shutting down, unless it has been closed on the way.  When the
  library calls succeed, the write buffer has gained exactly that response, the read
  event has been deleted and the read side of the socket shut down, the connection is
  marked as shutting down, and the read buffer is as the parser left it.
\<close>

theorem read_loop_parser_error:
  assumes "\<not> stuck c"
    and "http_msg_parse X (rbuf c) (parser c) = (ret, rb, p)"
    and "ret \<noteq> -1" and "ret \<noteq> 0"
    and "state p = HTTP_PARSER_ERROR"
    and "c' = snd (http_connection_shutdown
                    (snd (http_connection_http_error X
                            (http_connection_error (c\<lparr>rbuf := rb, parser := p\<rparr>))
                            (status_code p))))"
  shows "read_loop X c = Some (True, c')
    \<and> (stuck c' \<or> shutting_down c')
    \<and> (rets c = [] \<and> http_version_to_string X (http_version c) = Some vs
        \<and> http_status_code_to_reason_phrase X (status_code p) = Some rp \<longrightarrow>
          wbuf c' = wbuf c @ error_response vs (status_code p) rp
          \<and> trace c' = trace c @ [Http_server_error]
                       @ (if wbuf c = [] then [Event_add Ev_write] else [])
                       @ [Event_del Ev_read, Sock_shutdown_rd (sock c)]
          \<and> shutting_down c' \<and> \<not> freed c' \<and> rbuf c' = rb \<and> parser c' = p)"
proof -
  define c1 where "c1 = log Http_server_error (c\<lparr>rbuf := rb, parser := p\<rparr>)"
  have e: "http_connection_error (c\<lparr>rbuf := rb, parser := p\<rparr>) = c1"
    using assms(1) by (simp add: c1_def http_connection_error_def)
  have l: "\<not> stuck c1" "rets c1 = rets c" "http_version c1 = http_version c"
    "wbuf c1 = wbuf c" "trace c1 = trace c @ [Http_server_error]" "sock c1 = sock c"
    "parser c1 = p" "rbuf c1 = rb" "freed c1 = freed c"
    using assms(1) by (simp_all add: c1_def)
  have c': "c' = snd (http_connection_shutdown
                        (snd (http_connection_http_error X c1 (status_code p))))"
    by (simp add: assms(6) e)
  have loop: "read_loop X c = Some (True, c')"
    using read_loop_error_step [OF assms(1-5)] by (simp add: assms(6))
  have sd: "stuck c' \<or> shutting_down c'"
    unfolding c' by (rule shutdown_stuck_or_down)
  have ok: "c' = (emit c1 (error_response vs (status_code p) rp))
                  \<lparr>trace := trace (emit c1 (error_response vs (status_code p) rp))
                             @ [Event_del Ev_read, Sock_shutdown_rd (sock c1)],
                   shutting_down := True\<rparr>"
    if "rets c = []" "http_version_to_string X (http_version c) = Some vs"
       "http_status_code_to_reason_phrase X (status_code p) = Some rp"
    unfolding c' using that l(1)
    by (simp add: http_connection_http_error_ok http_connection_shutdown_ok l)
  have fin: "wbuf c' = wbuf c @ error_response vs (status_code p) rp
          \<and> trace c' = trace c @ [Http_server_error]
                       @ (if wbuf c = [] then [Event_add Ev_write] else [])
                       @ [Event_del Ev_read, Sock_shutdown_rd (sock c)]
          \<and> shutting_down c' \<and> \<not> freed c' \<and> rbuf c' = rb \<and> parser c' = p"
    if "rets c = []" "http_version_to_string X (http_version c) = Some vs"
       "http_status_code_to_reason_phrase X (status_code p) = Some rp"
    using assms(1) by (simp add: ok [OF that] l stuck_def)
  show ?thesis
    using loop sd fin by blast
qed

theorem read_loop_parser_error_witness:
  "map_option fst (read_loop externs0 ((conn0 (request0 HTTP_GET ''/x'' 1 0))\<lparr>rbuf := ''!''\<rparr>))
     = Some True
   \<and> map_option (wbuf \<circ> snd)
        (read_loop externs0 ((conn0 (request0 HTTP_GET ''/x'' 1 0))\<lparr>rbuf := ''!''\<rparr>))
     = Some (error_response ''HTTP/1.1'' 400 ''Bad Request'')
   \<and> map_option (shutting_down \<circ> snd)
        (read_loop externs0 ((conn0 (request0 HTTP_GET ''/x'' 1 0))\<lparr>rbuf := ''!''\<rparr>))
     = Some True
   \<and> map_option (trace \<circ> snd)
        (read_loop externs0 ((conn0 (request0 HTTP_GET ''/x'' 1 0))\<lparr>rbuf := ''!''\<rparr>))
     = Some [Http_server_error, Event_add Ev_write, Event_del Ev_read, Sock_shutdown_rd 7]"
proof -
  let ?c = "(conn0 (request0 HTTP_GET ''/x'' 1 0))\<lparr>rbuf := ''!''\<rparr>"
  let ?p = "(parser ?c)\<lparr>state := HTTP_PARSER_ERROR, status_code := 400, errmsg := ''bad''\<rparr>"
  define c' where
    "c' = snd (http_connection_shutdown
                 (snd (http_connection_http_error externs0
                         (http_connection_error (?c\<lparr>rbuf := [], parser := ?p\<rparr>))
                         (status_code ?p))))"
  have f: "\<not> stuck ?c" "rets ?c = []" "wbuf ?c = []" "trace ?c = []" "sock ?c = 7"
    "http_version ?c = 1" "rbuf ?c = ''!''"
    by (simp_all add: conn0_def stuck_def)
  have prs: "http_msg_parse externs0 (rbuf ?c) (parser ?c) = (1, [], ?p)"
    by (simp add: externs0_def f)
  from read_loop_parser_error
         [OF f(1) prs _ _ _ c'_def, of "''HTTP/1.1''" "''Bad Request''"]
  have "read_loop externs0 ?c = Some (True, c')
        \<and> wbuf c' = error_response ''HTTP/1.1'' 400 ''Bad Request''
        \<and> trace c' = [Http_server_error, Event_add Ev_write, Event_del Ev_read,
                      Sock_shutdown_rd 7]
        \<and> shutting_down c'"
    by (simp add: f externs0_def)
  then show ?thesis by simp
qed

text \<open>
  A read event that delivers a complete request followed by a malformed one: the handler
  of the first answers, then the parser fails and the connection sends the 400 response
  and shuts down; the time of the last activity is not updated.
\<close>

lemma http_connection_on_read_event_example:
  "map_option wbuf
     (http_connection_on_read_event externs0 (conn0 (request0 HTTP_GET ''/x'' 1 0)) 2 ''a!''
        (Some 5000))
     = Some (''hello'' @ error_response ''HTTP/1.1'' 400 ''Bad Request'')
   \<and> map_option trace
     (http_connection_on_read_event externs0 (conn0 (request0 HTTP_GET ''/x'' 1 0)) 2 ''a!''
        (Some 5000))
     = Some [Sock_read 7, Msg_handler, Event_add Ev_write, Http_server_error,
             Event_del Ev_read, Sock_shutdown_rd 7]"
proof -
  let ?R = "request0 HTTP_GET ''/x'' 1 0"
  let ?u = "\<lparr>path = ''/x''\<rparr>"
  define a where "a = (log (Sock_read 7) (conn0 ?R))\<lparr>rbuf := ''a!''\<rparr>"
  define p1 where "p1 = (parser a)\<lparr>state := HTTP_PARSER_DONE\<rparr>"
  define b where "b = a\<lparr>rbuf := ''!'', parser := p1\<rparr>"
  define c3 where "c3 = emit (log Msg_handler (with_request_uri b ?u)) ''hello''"
  define p2 where "p2 = (parser c3)\<lparr>state := HTTP_PARSER_START\<rparr>"
  define d where "d = c3\<lparr>parser := p2\<rparr>"
  define p3 where "p3 = p2\<lparr>state := HTTP_PARSER_ERROR, status_code := 400, errmsg := ''bad''\<rparr>"
  define e where "e = log Http_server_error (d\<lparr>rbuf := [], parser := p3\<rparr>)"
  have la: "\<not> stuck a" "rbuf a = ''a!''" "msg (parser a) = ?R"
    by (simp_all add: a_def)
  have pa: "http_msg_parse externs0 (rbuf a) (parser a) = (1, ''!'', p1)"
    by (simp add: externs0_def la p1_def)
  have lb: "\<not> stuck b" "rets b = []" "msg (parser b) = ?R" "wbuf b = []"
    "trace b = [Sock_read 7]" "sock b = 7"
    by (simp_all add: b_def a_def p1_def stuck_def conn0_def log_def)
  have pm: "http_connection_process_msg externs0 b = c3"
  proof -
    have "http_connection_process_msg externs0 b
            = process_msg_end (handler0 (log Msg_handler (with_request_uri b ?u)))"
      using process_msg_handler_path [of b externs0 ?u handler0 HTTP_ROUTE_MATCH_OK] lb
      by (simp add: request0_def externs0_def)
    also have "\<dots> = process_msg_end c3"
      using lb by (simp add: handler0_ok c3_def)
    also have "\<dots> = c3"
      using lb
      by (simp add: process_msg_end_shutdown c3_def version_policy_def has_close_def request0_def)
    finally show ?thesis .
  qed
  have lc: "\<not> stuck c3" "rets c3 = []" "wbuf c3 = ''hello''" "rbuf c3 = ''!''"
    "trace c3 = [Sock_read 7, Msg_handler, Event_add Ev_write]" "sock c3 = 7"
    "http_version c3 = 1"
    using lb by (simp_all add: c3_def b_def with_request_uri_def request0_def)
  have s1: "read_loop externs0 a = read_loop externs0 d"
    unfolding d_def
    using read_loop_done_step [of a externs0 1 "''!''" p1 c3 p2] la(1) pa pm lc(1)
    by (simp add: b_def p1_def p2_def externs0_def)
  have ld: "\<not> stuck d" "rbuf d = ''!''" "parser d = p2"
    using lc by (simp_all add: d_def)
  have pd: "http_msg_parse externs0 (rbuf d) (parser d) = (1, [], p3)"
    by (simp add: externs0_def ld p3_def)
  have le: "\<not> stuck e" "rets e = []" "wbuf e = ''hello''" "http_version e = 1" "sock e = 7"
    "trace e = [Sock_read 7, Msg_handler, Event_add Ev_write, Http_server_error]"
    using lc by (simp_all add: e_def d_def)
  have s2: "read_loop externs0 d
              = Some (True, snd (http_connection_shutdown
                                   (snd (http_connection_http_error externs0 e 400))))"
    using read_loop_error_step [OF ld(1) pd] ld(1)
    by (simp add: e_def http_connection_error_def stuck_def p3_def)
  have s3: "snd (http_connection_shutdown (snd (http_connection_http_error externs0 e 400)))
              = (emit e (error_response ''HTTP/1.1'' 400 ''Bad Request''))
                  \<lparr>trace := trace (emit e (error_response ''HTTP/1.1'' 400 ''Bad Request''))
                             @ [Event_del Ev_read, Sock_shutdown_rd 7],
                   shutting_down := True\<rparr>"
    using le
    by (simp add: http_connection_http_error_ok [where vs = "''HTTP/1.1''" and rp = "''Bad Request''"]
        http_connection_shutdown_ok externs0_def)
  have "http_connection_on_read_event externs0 (conn0 ?R) 2 ''a!'' (Some 5000)
          = Some ((emit e (error_response ''HTTP/1.1'' 400 ''Bad Request''))
                  \<lparr>trace := trace (emit e (error_response ''HTTP/1.1'' 400 ''Bad Request''))
                             @ [Event_del Ev_read, Sock_shutdown_rd 7],
                   shutting_down := True\<rparr>)"
  proof -
    have ra: "(log (Sock_read 7) (conn0 ?R))\<lparr>rbuf := rbuf (conn0 ?R) @ ''a!''\<rparr> = a"
      by (simp add: a_def conn0_def log_def)
    show ?thesis
      by (simp add: http_connection_on_read_event_def Let_def ra s1 s2 s3)
  qed
  then show ?thesis
    by (simp add: le)
qed

subsection \<open>Timeout\<close>

lemma http_connection_check_for_timeout_fires:
  assumes "\<not> stuck c" and "rets c = []"
    and "http_version_to_string X (http_version c) = Some vs"
    and "http_status_code_to_reason_phrase X HTTP_REQUEST_TIMEOUT = Some rp"
    and "now - last_activity c > connection_timeout (cfg (server c))"
  shows "http_connection_check_for_timeout X c now
           = (emit c (error_response vs HTTP_REQUEST_TIMEOUT rp))
               \<lparr>trace := trace (emit c (error_response vs HTTP_REQUEST_TIMEOUT rp))
                          @ [Event_del Ev_read, Sock_shutdown_rd (sock c)],
                shutting_down := True\<rparr>"
  using assms
  by (simp add: http_connection_check_for_timeout_def http_connection_http_error_ok
      http_connection_shutdown_ok Let_def)

text \<open>
  C5 fails on the code.  A connection idle for longer than the timeout, whose write
  buffer is not drained between two runs of the timeout check, gets the 408 response
  twice: after the first check it is still open and in the server's table, with one
  response buffered, and the second check appends another.
\<close>

theorem http_connection_check_for_timeout_twice:
  "wbuf (http_connection_check_for_timeout externs0 (conn0 (request0 HTTP_GET ''/x'' 1 0)) 20000)
     = error_response ''HTTP/1.1'' 408 ''Request Timeout''
   \<and> \<not> freed (http_connection_check_for_timeout externs0
                 (conn0 (request0 HTTP_GET ''/x'' 1 0)) 20000)
   \<and> 7 \<in> connections (server (http_connection_check_for_timeout externs0
                                    (conn0 (request0 HTTP_GET ''/x'' 1 0)) 20000))
   \<and> wbuf (http_connection_check_for_timeout externs0
            (http_connection_check_for_timeout externs0
               (conn0 (request0 HTTP_GET ''/x'' 1 0)) 20000) 21000)
     = error_response ''HTTP/1.1'' 408 ''Request Timeout''
       @ error_response ''HTTP/1.1'' 408 ''Request Timeout''"
proof -
  let ?c = "conn0 (request0 HTTP_GET ''/x'' 1 0)"
  let ?r = "error_response ''HTTP/1.1'' 408 ''Request Timeout''"
  let ?c1 = "(emit ?c ?r)\<lparr>trace := trace (emit ?c ?r) @ [Event_del Ev_read, Sock_shutdown_rd 7],
                            shutting_down := True\<rparr>"
  have t: "connection_timeout (cfg (server ?c)) = 10000"
    by (simp add: conn0_def http_cfg_init_def http_cfg_content_decoder_add_def)
  have 1: "http_connection_check_for_timeout externs0 ?c 20000 = ?c1"
    using http_connection_check_for_timeout_fires
            [of ?c externs0 "''HTTP/1.1''" "''Request Timeout''" 20000]
    by (simp add: t externs0_def)
  have l: "\<not> stuck ?c1" "rets ?c1 = []" "http_version ?c1 = 1" "last_activity ?c1 = 1000"
    "connection_timeout (cfg (server ?c1)) = 10000" "wbuf ?c1 = ?r" "\<not> freed ?c1"
    using t by (simp_all add: stuck_def emit_def conn0_def)
  have 2: "wbuf (http_connection_check_for_timeout externs0 ?c1 21000) = ?r @ ?r"
    using http_connection_check_for_timeout_fires
            [of ?c1 externs0 "''HTTP/1.1''" "''Request Timeout''" 21000] l
    by (simp add: externs0_def)
  have 3: "7 \<in> connections (server ?c1)"
    by (simp add: conn0_def)
  show ?thesis
    using 1 2 3 l by simp
qed

subsection \<open>Configuration defaults\<close>

lemma http_cfg_init_ret: "fst (http_cfg_init z alloc_ok) = (if alloc_ok then 0 else -1)"
  by (simp add: http_cfg_init_def http_cfg_content_decoder_add_def)

text \<open>
  C9.  A configuration that \<open>http_cfg_init\<close> initialised successfully (return value 0)
  has the documented defaults: backlog 5, request URI limit 2048, header name limit 128,
  header value limit 4096, content length limit 16,000,000, chunk length limit 1,000,000,
  bufferization auto, connection timeout 10,000 ms.
\<close>

theorem http_cfg_init_defaults:
  assumes "http_cfg_init z alloc_ok = (0, conf)"
  shows "connection_backlog conf = 5 \<and> max_request_uri_length conf = 2048
       \<and> max_header_name_length conf = 128 \<and> max_header_value_length conf = 4096
       \<and> max_content_length conf = 16000000 \<and> max_chunk_length conf = 1000000
       \<and> bufferization conf = HTTP_BUFFERIZE_AUTO \<and> connection_timeout conf = 10000"
  using assms
  by (auto simp: http_cfg_init_def http_cfg_content_decoder_add_def split: if_splits)

theorem http_cfg_init_defaults_witness:
  "fst (http_cfg_init HTTP_BUFFERIZE_NONE True) = 0
   \<and> connection_backlog (snd (http_cfg_init HTTP_BUFFERIZE_NONE True)) = 5
   \<and> max_request_uri_length (snd (http_cfg_init HTTP_BUFFERIZE_NONE True)) = 2048
   \<and> max_header_name_length (snd (http_cfg_init HTTP_BUFFERIZE_NONE True)) = 128
   \<and> max_header_value_length (snd (http_cfg_init HTTP_BUFFERIZE_NONE True)) = 4096
   \<and> max_content_length (snd (http_cfg_init HTTP_BUFFERIZE_NONE True)) = 16000000
   \<and> max_chunk_length (snd (http_cfg_init HTTP_BUFFERIZE_NONE True)) = 1000000
   \<and> bufferization (snd (http_cfg_init HTTP_BUFFERIZE_NONE True)) = HTTP_BUFFERIZE_AUTO
   \<and> connection_timeout (snd (http_cfg_init HTTP_BUFFERIZE_NONE True)) = 10000"
proof -
  have r: "fst (http_cfg_init HTTP_BUFFERIZE_NONE True) = 0"
    by (simp add: http_cfg_init_ret)
  then have e: "http_cfg_init HTTP_BUFFERIZE_NONE True
                  = (0, snd (http_cfg_init HTTP_BUFFERIZE_NONE True))"
    by (metis prod.collapse)
  show ?thesis
    using r http_cfg_init_defaults [OF e] by simp
qed

end
